theory Spec2Isabelle
  imports Main "HOL-Library.Word"
begin

unbundle bit_operations_syntax

section \<open>Values and schema descriptors\<close>

text \<open>
  The cbuf library (parse.ts, lookup.ts, serde.ts) is embedded function by function.
  Schema text, identifiers and type names are \<open>string\<close>: the grammar admits only the
  characters \<open>[A-Za-z0-9_]\<close> (and \<open>::\<close>) in them. The string values of a message are
  JavaScript strings, sequences of 16-bit code units, because their UTF-8 form is what
  the codec writes.
\<close>

type_synonym jsstring = "16 word list"
type_synonym byte = "8 word"

definition js :: "string \<Rightarrow> jsstring" where
  "js s = map (\<lambda>c. of_nat (of_char c)) s"

text \<open>
  A JavaScript Number is written \<open>NInt n\<close> when it holds the integer \<open>n\<close> and
  \<open>NF64 w\<close> when it is given by its binary64 bit pattern \<open>w\<close> (what a float field
  read from a buffer yields).
\<close>

datatype jsnum = NInt int | NF64 "64 word"

datatype tkind = U8 | I8 | U16 | I16 | U32 | I32 | U64 | I64 | F32 | F64

text \<open>
  \<open>CbufValue\<close> of types.ts together with \<open>undefined\<close> and \<open>null\<close>; an object is the
  list of its own properties, a typed array its element kind and its elements.
\<close>

datatype val =
    VUndefined
  | VNull
  | VBool bool
  | VNumber jsnum
  | VBigInt int
  | VString jsstring
  | VArray "val list"
  | VTyped tkind "val list"
  | VObject "(string \<times> val) list"

text \<open>
  \<open>MessageDefinitionField\<close>. \<open>isComplex\<close>, \<open>isArray\<close> and \<open>isConstant\<close> are
  \<open>True\<close> exactly when the property is \<open>true\<close> (the code tests \<open>=== true\<close>); the
  optional properties are options. Array lengths and bounds are the natural numbers the
  grammar's constant folding yields.
\<close>

record field =
  fname :: string
  ftype :: string
  isComplex :: bool
  isArray :: bool
  arrayLength :: "nat option"
  arrayUpperBound :: "nat option"
  upperBound :: "nat option"
  defaultValue :: "val option"
  isConstant :: bool
  fvalue :: "int option"

text \<open>\<open>CbufMessageDefinition\<close> of types.ts; \<open>hashValue\<close> is a bigint.\<close>

record msgdef =
  name :: string
  namespaces :: "string list"
  definitions :: "field list"
  hashValue :: nat
  isEnum :: bool
  isEnumClass :: bool
  isNakedStruct :: bool

type_synonym schemaMap = "string \<rightharpoonup> msgdef"

datatype error =
    ImportNotFound string
  | AmbiguousParse nat
  | NoParseResults
  | NoEntities
  | DuplicateEntity string
  | NestedNamespace
  | UnknownEnumValue string
  | ComplexDefault string
  | InvalidDefaultValue string
  | NoStructs
  | NotFound string
  | UnsupportedType string
  | UnknownMessageType string
  | MessageNotObject
  | InvalidOffset
  | BufferTooSmall
  | BadMagic
  | HashNotFound
  | SizeExceedsBuffer
  | SizeMismatch
  | RangeError
  | TypeError
  | StackOverflow

section \<open>lookup.ts\<close>

fun startsWith :: "string \<Rightarrow> string \<Rightarrow> bool" where
  "startsWith s [] = True"
| "startsWith [] (p # ps) = False"
| "startsWith (c # cs) (p # ps) = (c = p \<and> startsWith cs ps)"

fun str_includes :: "string \<Rightarrow> string \<Rightarrow> bool" where
  "str_includes [] sub = (sub = [])"
| "str_includes (c # cs) sub = (startsWith (c # cs) sub \<or> str_includes cs sub)"

fun join :: "string list \<Rightarrow> string \<Rightarrow> string" where
  "join [] sep = []"
| "join [x] sep = x"
| "join (x # y # ys) sep = x @ sep @ join (y # ys) sep"

text \<open>
  The loop \<open>for (let i = namespaces.length; i >= 0; i--)\<close> of \<open>lookupMsgdef\<close> and
  \<open>lookupEnum\<close>, started at \<open>i\<close>.
\<close>

fun walkNamespaces :: "(string \<rightharpoonup> 'a) \<Rightarrow> string list \<Rightarrow> string \<Rightarrow> nat \<Rightarrow> 'a option" where
  "walkNamespaces m ns typeName 0 = m (join (take 0 ns @ [typeName]) ''::'')"
| "walkNamespaces m ns typeName (Suc i) =
     (case m (join (take (Suc i) ns @ [typeName]) ''::'') of
        Some d \<Rightarrow> Some d
      | None \<Rightarrow> walkNamespaces m ns typeName i)"

definition lookupEnum :: "(string \<rightharpoonup> 'a) \<Rightarrow> string list \<Rightarrow> string \<Rightarrow> 'a option" where
  "lookupEnum enums ns typeName =
     (if str_includes typeName ''::'' then enums typeName
      else walkNamespaces enums ns typeName (length ns))"

definition lookupMsgdef :: "schemaMap \<Rightarrow> string list \<Rightarrow> string \<Rightarrow> error + msgdef" where
  "lookupMsgdef nameToSchema ns typeName =
     (case lookupEnum nameToSchema ns typeName of
        Some d \<Rightarrow> Inr d
      | None \<Rightarrow> Inl (NotFound (join (ns @ [typeName]) ''::'')))"

section \<open>parse.ts: the struct hash\<close>

definition hash_mask :: nat where
  "hash_mask = 0xffffffffffffffff"

text \<open>
  One round of the loop of \<open>hashString\<close>, on bigints:
  \<open>hash = (((hash << 5n) + hash) & mask) + BigInt(c.charCodeAt(0)); hash &= mask\<close>.
\<close>

definition hashStep :: "nat \<Rightarrow> char \<Rightarrow> nat" where
  "hashStep hash c = (((push_bit 5 hash + hash) AND hash_mask) + of_char c) AND hash_mask"

definition hashString :: "string \<Rightarrow> nat" where
  "hashString str = foldl hashStep 5381 str"

text \<open>The recurrence as the specification words it.\<close>

definition djb2_step :: "nat \<Rightarrow> char \<Rightarrow> nat" where
  "djb2_step hash c = (push_bit 5 hash + hash + of_char c) mod 2 ^ 64"

definition djb2 :: "string \<Rightarrow> nat" where
  "djb2 str = foldl djb2_step 5381 str"

definition elementTypeToStrC :: "string \<Rightarrow> error + string" where
  "elementTypeToStrC t =
     (if t = ''uint8'' then Inr ''uint8_t''
      else if t = ''uint16'' then Inr ''uint16_t''
      else if t = ''uint32'' then Inr ''uint32_t''
      else if t = ''uint64'' then Inr ''uint64_t''
      else if t = ''int8'' then Inr ''int8_t''
      else if t = ''int16'' then Inr ''int16_t''
      else if t = ''int32'' then Inr ''int32_t''
      else if t = ''int64'' then Inr ''int64_t''
      else if t = ''float32'' then Inr ''float''
      else if t = ''float64'' then Inr ''double''
      else if t = ''string'' then Inr ''std::string''
      else if t = ''short_string'' then Inr ''VString<15>''
      else if t = ''bool'' then Inr ''bool''
      else Inl (UnsupportedType t))"

text \<open>Decimal digits of a natural number, as a template literal prints a bigint.\<close>

definition digit :: "nat \<Rightarrow> char" where
  "digit d = ''0123456789'' ! d"

fun decimal :: "nat \<Rightarrow> string" where
  "decimal n =
     (if n < 10 then [digit n]
      else decimal (n div 10) @ [digit (n mod 10)])"

declare decimal.simps [simp del]

definition arrayPrefix :: "field \<Rightarrow> string" where
  "arrayPrefix f =
     (if isArray f
      then ''['' @ decimal (case arrayLength f of None \<Rightarrow> 0 | Some n \<Rightarrow> n) @ ''] ''
      else [])"

text \<open>
  \<open>computeHashValue\<close>. \<open>hashBuf\<close> is the text \<open>buf.join("")\<close> that the function hands
  to \<open>hashString\<close>, and \<open>hashLines\<close> its loop over the fields. The recursion follows the
  struct references of the schema, so it carries fuel: a chain of references longer than
  the fuel is reported as \<open>StackOverflow\<close>, which is how the unbounded recursion on a
  cyclic schema ends in JavaScript.
\<close>

fun hashBuf :: "nat \<Rightarrow> schemaMap \<Rightarrow> string list \<Rightarrow> string \<Rightarrow> error + string"
  and hashLines :: "nat \<Rightarrow> schemaMap \<Rightarrow> string list \<Rightarrow> field list \<Rightarrow> error + string"
where
  "hashBuf 0 nameToSchema ns typeName = Inl StackOverflow"
| "hashBuf (Suc n) nameToSchema ns typeName =
     (case lookupMsgdef nameToSchema ns typeName of
        Inl e \<Rightarrow> Inl e
      | Inr d \<Rightarrow>
          (case hashLines n nameToSchema (namespaces d) (definitions d) of
             Inl e \<Rightarrow> Inl e
           | Inr ls \<Rightarrow> Inr (''struct '' @ typeName @ [CHR '' '', CHR 0x0A] @ ls)))"
| "hashLines n nameToSchema ns [] = Inr []"
| "hashLines n nameToSchema ns (f # fs) =
     (case (if isComplex f
            then (case hashBuf n nameToSchema ns (ftype f) of
                    Inl e \<Rightarrow> Inl e
                  | Inr s \<Rightarrow>
                      Inr (decimal (hashString s) @ '' '' @ fname f @ [CHR '';'', CHR 0x0A]))
            else (case elementTypeToStrC (ftype f) of
                    Inl e \<Rightarrow> Inl e
                  | Inr c \<Rightarrow> Inr (c @ '' '' @ fname f @ [CHR '';'', CHR '' '', CHR 0x0A])))
      of Inl e \<Rightarrow> Inl e
       | Inr l \<Rightarrow>
           (case hashLines n nameToSchema ns fs of
              Inl e \<Rightarrow> Inl e
            | Inr ls \<Rightarrow> Inr (arrayPrefix f @ l @ ls)))"

definition computeHashValue :: "nat \<Rightarrow> schemaMap \<Rightarrow> string list \<Rightarrow> string \<Rightarrow> error + nat" where
  "computeHashValue fuel nameToSchema ns typeName =
     (case hashBuf fuel nameToSchema ns typeName of
        Inl e \<Rightarrow> Inl e
      | Inr s \<Rightarrow> Inr (hashString s))"

section \<open>cbuf.ne: what the grammar builds\<close>

text \<open>
  The nearley parser itself is a library. Its postprocessors, which build the entity
  list that \<open>parse\<close> receives, are the functions of this section; an input text is
  represented by the entity list its derivation builds.
\<close>

definition typeOnly :: "string \<Rightarrow> field" where
  "typeOnly t =
     \<lparr>fname = [], ftype = t, isComplex = False, isArray = False, arrayLength = None,
      arrayUpperBound = None, upperBound = None, defaultValue = None, isConstant = False,
      fvalue = None\<rparr>"

text \<open>The rule \<open>BasicType\<close>: each accepted spelling and the descriptor it yields.\<close>

definition BasicType :: "string \<Rightarrow> field option" where
  "BasicType w =
     (if w = ''string'' then Some (typeOnly ''string'')
      else if w = ''short_string'' then Some (typeOnly ''short_string'')
      else if w = ''bool'' then Some (typeOnly ''bool'')
      else if w = ''int'' then Some (typeOnly ''int32'')
      else if w = ''float'' then Some (typeOnly ''float32'')
      else if w = ''double'' then Some (typeOnly ''float64'')
      else if w = ''s8'' then Some (typeOnly ''int8'')
      else if w = ''s16'' then Some (typeOnly ''int16'')
      else if w = ''s32'' then Some (typeOnly ''int32'')
      else if w = ''s64'' then Some (typeOnly ''int64'')
      else if w = ''u8'' then Some (typeOnly ''uint8'')
      else if w = ''u16'' then Some (typeOnly ''uint16'')
      else if w = ''u32'' then Some (typeOnly ''uint32'')
      else if w = ''u64'' then Some (typeOnly ''uint64'')
      else if w = ''f32'' then Some (typeOnly ''float32'')
      else if w = ''f64'' then Some (typeOnly ''float64'')
      else if w = ''int8'' then Some (typeOnly ''int8'')
      else if w = ''int16'' then Some (typeOnly ''int16'')
      else if w = ''int32'' then Some (typeOnly ''int32'')
      else if w = ''int64'' then Some (typeOnly ''int64'')
      else if w = ''uint8'' then Some (typeOnly ''uint8'')
      else if w = ''uint16'' then Some (typeOnly ''uint16'')
      else if w = ''uint32'' then Some (typeOnly ''uint32'')
      else if w = ''uint64'' then Some (typeOnly ''uint64'')
      else if w = ''float32'' then Some (typeOnly ''float32'')
      else if w = ''float64'' then Some (typeOnly ''float64'')
      else if w = ''int8_t'' then Some (typeOnly ''int8'')
      else if w = ''int16_t'' then Some (typeOnly ''int16'')
      else if w = ''int32_t'' then Some (typeOnly ''int32'')
      else if w = ''int64_t'' then Some (typeOnly ''int64'')
      else if w = ''uint8_t'' then Some (typeOnly ''uint8'')
      else if w = ''uint16_t'' then Some (typeOnly ''uint16'')
      else if w = ''uint32_t'' then Some (typeOnly ''uint32'')
      else if w = ''uint64_t'' then Some (typeOnly ''uint64'')
      else None)"

definition ComplexType :: "string list \<Rightarrow> field" where
  "ComplexType ids = (typeOnly (join ids ''::''))\<lparr>isComplex := True\<rparr>"

datatype array = NoArray | ArrayUnbounded | ArrayFixed nat | ArrayCompact nat

text \<open>The rule \<open>Field\<close>: \<open>{ name: d[2], ...d[0], ...d[3], ...d[5] }\<close>.\<close>

definition Field :: "field \<Rightarrow> string \<Rightarrow> array \<Rightarrow> val option \<Rightarrow> field" where
  "Field typeName ident arr assignment =
     (let f = typeName\<lparr>fname := ident\<rparr>;
          f = (case arr of
                 NoArray \<Rightarrow> f
               | ArrayUnbounded \<Rightarrow> f\<lparr>isArray := True\<rparr>
               | ArrayFixed n \<Rightarrow> f\<lparr>isArray := True, arrayLength := Some n\<rparr>
               | ArrayCompact n \<Rightarrow> f\<lparr>isArray := True, arrayUpperBound := Some n\<rparr>)
      in (case assignment of None \<Rightarrow> f | Some v \<Rightarrow> f\<lparr>defaultValue := Some v\<rparr>))"

text \<open>The rule \<open>EnumValue\<close>; the numbers of the model are the integers.\<close>

definition EnumValue :: "string \<Rightarrow> int option \<Rightarrow> field" where
  "EnumValue ident assignment =
     (typeOnly ''uint32'')\<lparr>fname := ident, isConstant := True, fvalue := assignment\<rparr>"

text \<open>
  \<open>ParserEntityDefinition\<close>: a namespace with its entities, a constant (type, name,
  value), an enum (name, isEnumClass, members) and a struct (name, isNakedStruct,
  fields). The two flags are \<open>True\<close> when the grammar sets them and \<open>False\<close> when it
  leaves them undefined, which \<open>parseEntities\<close> reads with \<open>?? false\<close>.
\<close>

datatype entity =
    Namespace string "entity list"
  | Constant string string val
  | Enum string bool "field list"
  | Struct string bool "field list"

section \<open>parse.ts: semantic analysis\<close>

record pstate =
  entityNames :: "string set"
  constants :: "string \<rightharpoonup> string \<times> val"
  enums :: "string \<rightharpoonup> field list"

datatype jstype = TUndefined | TObject | TBoolean | TNumber | TBigint | TString

fun typeof :: "val \<Rightarrow> jstype" where
  "typeof VUndefined = TUndefined"
| "typeof VNull = TObject"
| "typeof (VBool b) = TBoolean"
| "typeof (VNumber n) = TNumber"
| "typeof (VBigInt n) = TBigint"
| "typeof (VString s) = TString"
| "typeof (VArray xs) = TObject"
| "typeof (VTyped k xs) = TObject"
| "typeof (VObject ps) = TObject"

text \<open>\<open>x != undefined\<close> on an optional property.\<close>

fun defined :: "val option \<Rightarrow> bool" where
  "defined None = False"
| "defined (Some VUndefined) = False"
| "defined (Some VNull) = False"
| "defined (Some v) = True"

definition defaultValueTypeCheck :: "string \<Rightarrow> string \<Rightarrow> val \<Rightarrow> error + unit" where
  "defaultValueTypeCheck fieldName typeName element =
     (if typeName = ''string'' \<or> typeName = ''short_string''
      then (if typeof element \<noteq> TString then Inl (InvalidDefaultValue fieldName) else Inr ())
      else if typeName = ''bool''
      then (if typeof element \<noteq> TBoolean then Inl (InvalidDefaultValue fieldName) else Inr ())
      else (if typeof element \<noteq> TNumber then Inl (InvalidDefaultValue fieldName) else Inr ()))"

text \<open>
  The loop that gives every enum member a value. The grammar yields a number or nothing
  for a member, so the branch that rejects a value of another type is not reachable.
\<close>

fun assignEnumValues :: "int \<Rightarrow> field list \<Rightarrow> field list" where
  "assignEnumValues nextValue [] = []"
| "assignEnumValues nextValue (d # ds) =
     (case fvalue d of
        None \<Rightarrow> d\<lparr>fvalue := Some nextValue\<rparr> # assignEnumValues (nextValue + 1) ds
      | Some v \<Rightarrow> d # assignEnumValues (v + 1) ds)"

text \<open>The body of the loop "Rewrite enum-typed fields as uint32s" for one field.\<close>

definition rewriteField :: "(string \<rightharpoonup> field list) \<Rightarrow> string list \<Rightarrow> field \<Rightarrow> error + field" where
  "rewriteField enms ns d =
     (if isComplex d then
        (case lookupEnum enms ns (ftype d) of
           Some enumDefinitions \<Rightarrow>
             (let d1 = d\<lparr>ftype := ''uint32'', isComplex := False\<rparr> in
              if defined (defaultValue d) \<and> typeof (the (defaultValue d)) \<noteq> TNumber
              then (case find (\<lambda>e. VString (js (fname e)) = the (defaultValue d)) enumDefinitions of
                      Some enumValue \<Rightarrow>
                        Inr (d1\<lparr>defaultValue := map_option (\<lambda>n. VNumber (NInt n)) (fvalue enumValue)\<rparr>)
                    | None \<Rightarrow> Inl (UnknownEnumValue (fname d)))
              else Inr d1)
         | None \<Rightarrow>
             (if \<not> str_includes (ftype d) ''::''
              then Inr (d\<lparr>ftype := join (ns @ [ftype d]) ''::''\<rparr>)
              else Inr d))
      else Inr d)"

fun rewriteFields :: "(string \<rightharpoonup> field list) \<Rightarrow> string list \<Rightarrow> field list \<Rightarrow> error + field list" where
  "rewriteFields enms ns [] = Inr []"
| "rewriteFields enms ns (d # ds) =
     (case rewriteField enms ns d of
        Inl e \<Rightarrow> Inl e
      | Inr d' \<Rightarrow>
          (case rewriteFields enms ns ds of
             Inl e \<Rightarrow> Inl e
           | Inr ds' \<Rightarrow> Inr (d' # ds')))"

fun checkElements :: "string \<Rightarrow> string \<Rightarrow> val list \<Rightarrow> error + unit" where
  "checkElements fieldName typeName [] = Inr ()"
| "checkElements fieldName typeName (x # xs) =
     (case defaultValueTypeCheck fieldName typeName x of
        Inl e \<Rightarrow> Inl e
      | Inr u \<Rightarrow> checkElements fieldName typeName xs)"

text \<open>The body of the loop "Type check default values" for one field.\<close>

definition checkDefault :: "field \<Rightarrow> error + unit" where
  "checkDefault d =
     (if defined (defaultValue d) then
        (if isComplex d then Inl (ComplexDefault (fname d))
         else if isArray d then
           (case the (defaultValue d) of
              VArray xs \<Rightarrow> checkElements (fname d) (ftype d) xs
            | _ \<Rightarrow> Inl (InvalidDefaultValue (fname d)))
         else defaultValueTypeCheck (fname d) (ftype d) (the (defaultValue d)))
      else Inr ())"

fun checkDefaults :: "field list \<Rightarrow> error + unit" where
  "checkDefaults [] = Inr ()"
| "checkDefaults (d # ds) =
     (case checkDefault d of Inl e \<Rightarrow> Inl e | Inr u \<Rightarrow> checkDefaults ds)"

text \<open>The duplicate check at the head of the loop of \<open>parseEntities\<close>.\<close>

definition registerName :: "string \<Rightarrow> pstate \<Rightarrow> error + pstate" where
  "registerName entityName st =
     (if entityName \<noteq> [] then
        (if entityName \<in> entityNames st then Inl (DuplicateEntity entityName)
         else Inr (st\<lparr>entityNames := insert entityName (entityNames st)\<rparr>))
      else Inr st)"

text \<open>
  \<open>parseEntities\<close>. The sets and maps it mutates are threaded as \<open>pstate\<close>. The enum
  stored in \<open>enums\<close> shares its member objects with the emitted definition, so the
  stored members carry the assigned values.
\<close>

fun parseEntities :: "entity list \<Rightarrow> string list \<Rightarrow> pstate \<Rightarrow> error + msgdef list \<times> pstate" where
  "parseEntities [] ns st = Inr ([], st)"
| "parseEntities (Namespace nm defs # rest) ns st =
     (if ns \<noteq> [] then Inl NestedNamespace
      else (case parseEntities defs (ns @ [nm]) st of
              Inl e \<Rightarrow> Inl e
            | Inr (rs, st1) \<Rightarrow>
                (case parseEntities rest ns st1 of
                   Inl e \<Rightarrow> Inl e
                 | Inr (rs', st2) \<Rightarrow> Inr (rs @ rs', st2))))"
| "parseEntities (Constant ty nm v # rest) ns st =
     (case registerName (join (ns @ [nm]) ''::'') st of
        Inl e \<Rightarrow> Inl e
      | Inr st1 \<Rightarrow>
          (case defaultValueTypeCheck nm ty v of
             Inl e \<Rightarrow> Inl e
           | Inr u \<Rightarrow>
               parseEntities rest ns
                 (st1\<lparr>constants := (constants st1)(join (ns @ [nm]) ''::'' \<mapsto> (ty, v))\<rparr>)))"
| "parseEntities (Enum nm cls defs # rest) ns st =
     (case registerName (join (ns @ [nm]) ''::'') st of
        Inl e \<Rightarrow> Inl e
      | Inr st1 \<Rightarrow>
          (let defs' = assignEnumValues 0 defs;
               r = \<lparr>name = join (ns @ [nm]) ''::'', namespaces = ns, definitions = defs',
                    hashValue = 0, isEnum = True, isEnumClass = cls, isNakedStruct = False\<rparr>
           in (case parseEntities rest ns
                      (st1\<lparr>enums := (enums st1)(join (ns @ [nm]) ''::'' \<mapsto> defs')\<rparr>) of
                 Inl e \<Rightarrow> Inl e
               | Inr (rs, st2) \<Rightarrow> Inr (r # rs, st2))))"
| "parseEntities (Struct nm naked defs # rest) ns st =
     (case registerName (join (ns @ [nm]) ''::'') st of
        Inl e \<Rightarrow> Inl e
      | Inr st1 \<Rightarrow>
          (case rewriteFields (enums st1) ns defs of
             Inl e \<Rightarrow> Inl e
           | Inr defs' \<Rightarrow>
               (case checkDefaults defs' of
                  Inl e \<Rightarrow> Inl e
                | Inr u \<Rightarrow>
                    (case parseEntities rest ns st1 of
                       Inl e \<Rightarrow> Inl e
                     | Inr (rs, st2) \<Rightarrow>
                         Inr (\<lparr>name = join (ns @ [nm]) ''::'', namespaces = ns,
                               definitions = defs', hashValue = 0, isEnum = False,
                               isEnumClass = False, isNakedStruct = naked\<rparr> # rs, st2)))))"

text \<open>The loop "Compute hash values" of \<open>parse\<close>.\<close>

fun computeHashes :: "nat \<Rightarrow> schemaMap \<Rightarrow> msgdef list \<Rightarrow> error + msgdef list" where
  "computeHashes fuel m [] = Inr []"
| "computeHashes fuel m (r # rs) =
     (if \<not> isEnum r then
        (case computeHashValue fuel m (namespaces r) (name r) of
           Inl e \<Rightarrow> Inl e
         | Inr h \<Rightarrow>
             (case computeHashes fuel m rs of
                Inl e \<Rightarrow> Inl e
              | Inr rs' \<Rightarrow> Inr (r\<lparr>hashValue := h\<rparr> # rs')))
      else (case computeHashes fuel m rs of
              Inl e \<Rightarrow> Inl e
            | Inr rs' \<Rightarrow> Inr (r # rs')))"

definition schemaMapOf :: "msgdef list \<Rightarrow> schemaMap" where
  "schemaMapOf rs = foldl (\<lambda>m r. m(name r \<mapsto> r)) Map.empty rs"

text \<open>
  \<open>parse\<close>, from the list of results that the parser returns for the text. A chain of
  struct references with more links than the schema has entities revisits one, so the
  fuel \<open>length parsed + 1\<close> runs out exactly on the schemas where the recursion of
  \<open>computeHashValue\<close> does not end.
\<close>

definition parse :: "entity list list \<Rightarrow> error + msgdef list" where
  "parse parseResults =
     (if length parseResults > 1 then Inl (AmbiguousParse (length parseResults))
      else (case parseResults of
              [] \<Rightarrow> Inl NoParseResults
            | entities # other \<Rightarrow>
                (if entities = [] then Inl NoEntities
                 else (case parseEntities entities []
                              \<lparr>entityNames = {}, constants = Map.empty, enums = Map.empty\<rparr> of
                         Inl e \<Rightarrow> Inl e
                       | Inr (parsed, st) \<Rightarrow>
                           (if length (filter (\<lambda>r. \<not> isEnum r) parsed) = 0 then Inl NoStructs
                            else computeHashes (length parsed + 1) (schemaMapOf parsed) parsed)))))"

section \<open>The platform: text encoding, numbers, buffers\<close>

subsection \<open>\<open>TextEncoder\<close> and \<open>TextDecoder\<close>\<close>

text \<open>
  \<open>TextEncoder.encode\<close>: the UTF-8 bytes of a string. A surrogate pair is one code
  point of four bytes; a lone surrogate is encoded as U+FFFD.
\<close>

definition utf8_of_codepoint :: "nat \<Rightarrow> byte list" where
  "utf8_of_codepoint c =
     (if c < 0x80 then [of_nat c]
      else if c < 0x800 then [of_nat (0xC0 + c div 0x40), of_nat (0x80 + c mod 0x40)]
      else if c < 0x10000 then
        [of_nat (0xE0 + c div 0x1000), of_nat (0x80 + c div 0x40 mod 0x40),
         of_nat (0x80 + c mod 0x40)]
      else
        [of_nat (0xF0 + c div 0x40000), of_nat (0x80 + c div 0x1000 mod 0x40),
         of_nat (0x80 + c div 0x40 mod 0x40), of_nat (0x80 + c mod 0x40)])"

definition isHighSurrogate :: "16 word \<Rightarrow> bool" where
  "isHighSurrogate u = (0xD800 \<le> unat u \<and> unat u < 0xDC00)"

definition isLowSurrogate :: "16 word \<Rightarrow> bool" where
  "isLowSurrogate u = (0xDC00 \<le> unat u \<and> unat u < 0xE000)"

fun textEncode :: "jsstring \<Rightarrow> byte list" where
  "textEncode [] = []"
| "textEncode [u] =
     (if isHighSurrogate u \<or> isLowSurrogate u then utf8_of_codepoint 0xFFFD
      else utf8_of_codepoint (unat u))"
| "textEncode (u # v # us) =
     (if isHighSurrogate u \<and> isLowSurrogate v
      then utf8_of_codepoint (0x10000 + (unat u - 0xD800) * 0x400 + (unat v - 0xDC00))
             @ textEncode us
      else if isHighSurrogate u \<or> isLowSurrogate u
      then utf8_of_codepoint 0xFFFD @ textEncode (v # us)
      else utf8_of_codepoint (unat u) @ textEncode (v # us))"

text \<open>
  \<open>TextDecoder.decode\<close> for UTF-8 without the fatal flag, after the decoder of the
  Encoding Standard. The state is the code point collected so far, the number of
  continuation bytes still needed and the range allowed for the next byte. A byte that
  cannot continue a sequence ends it with U+FFFD and is then read as a first byte.
\<close>

record utf8_state =
  codePoint :: nat
  bytesNeeded :: nat
  lowerBoundary :: nat
  upperBoundary :: nat

definition utf8_initial :: utf8_state where
  "utf8_initial = \<lparr>codePoint = 0, bytesNeeded = 0, lowerBoundary = 0x80, upperBoundary = 0xBF\<rparr>"

text \<open>A first byte: the code points it emits at once and the state it leaves.\<close>

definition utf8_lead :: "nat \<Rightarrow> nat list \<times> utf8_state" where
  "utf8_lead b =
     (if b \<le> 0x7F then ([b], utf8_initial)
      else if 0xC2 \<le> b \<and> b \<le> 0xDF
      then ([], utf8_initial\<lparr>codePoint := b mod 0x20, bytesNeeded := 1\<rparr>)
      else if 0xE0 \<le> b \<and> b \<le> 0xEF
      then ([], \<lparr>codePoint = b mod 0x10, bytesNeeded = 2,
                 lowerBoundary = (if b = 0xE0 then 0xA0 else 0x80),
                 upperBoundary = (if b = 0xED then 0x9F else 0xBF)\<rparr>)
      else if 0xF0 \<le> b \<and> b \<le> 0xF4
      then ([], \<lparr>codePoint = b mod 0x08, bytesNeeded = 3,
                 lowerBoundary = (if b = 0xF0 then 0x90 else 0x80),
                 upperBoundary = (if b = 0xF4 then 0x8F else 0xBF)\<rparr>)
      else ([0xFFFD], utf8_initial))"

fun utf8_decode :: "utf8_state \<Rightarrow> byte list \<Rightarrow> nat list" where
  "utf8_decode st [] = (if bytesNeeded st \<noteq> 0 then [0xFFFD] else [])"
| "utf8_decode st (b # bs) =
     (if bytesNeeded st = 0
      then fst (utf8_lead (unat b)) @ utf8_decode (snd (utf8_lead (unat b))) bs
      else if lowerBoundary st \<le> unat b \<and> unat b \<le> upperBoundary st
      then (if bytesNeeded st = 1
            then (codePoint st * 0x40 + unat b mod 0x40) # utf8_decode utf8_initial bs
            else utf8_decode
                   \<lparr>codePoint = codePoint st * 0x40 + unat b mod 0x40,
                    bytesNeeded = bytesNeeded st - 1,
                    lowerBoundary = 0x80, upperBoundary = 0xBF\<rparr> bs)
      else 0xFFFD # fst (utf8_lead (unat b)) @ utf8_decode (snd (utf8_lead (unat b))) bs)"

definition utf16_of_codepoint :: "nat \<Rightarrow> jsstring" where
  "utf16_of_codepoint c =
     (if c < 0x10000 then [of_nat c]
      else [of_nat (0xD800 + (c - 0x10000) div 0x400), of_nat (0xDC00 + (c - 0x10000) mod 0x400)])"

text \<open>The decoder drops one leading byte order mark.\<close>

definition stripBOM :: "byte list \<Rightarrow> byte list" where
  "stripBOM bs = (if take 3 bs = [0xEF, 0xBB, 0xBF] then drop 3 bs else bs)"

definition textDecode :: "byte list \<Rightarrow> jsstring" where
  "textDecode bs = concat (map utf16_of_codepoint (utf8_decode utf8_initial (stripBOM bs)))"

text \<open>\<open>str.split("\0").shift()\<close>: the part of the string before its first null.\<close>

definition beforeNull :: "jsstring \<Rightarrow> jsstring" where
  "beforeNull str = takeWhile (\<lambda>u. u \<noteq> 0) str"

subsection \<open>Numbers\<close>

text \<open>
  IEEE 754 binary formats with \<open>eb\<close> exponent bits and \<open>mb\<close> fraction bits.
  \<open>ieee_encode\<close> is the bit pattern of the value \<open>m * 2^e\<close> (negated if \<open>s\<close>)
  rounded to nearest, ties to even.
\<close>

fun bitlen :: "nat \<Rightarrow> nat" where
  "bitlen n = (if n = 0 then 0 else Suc (bitlen (n div 2)))"

declare bitlen.simps [simp del]

definition round_shift :: "nat \<Rightarrow> int \<Rightarrow> nat" where
  "round_shift m d =
     (if 0 \<le> d then m * 2 ^ nat d
      else (let r = nat (- d); q = m div 2 ^ r; rest = m mod 2 ^ r; half = 2 ^ (r - 1)
            in if half < rest \<or> (rest = half \<and> odd q) then q + 1 else q))"

definition ieee_encode :: "nat \<Rightarrow> nat \<Rightarrow> bool \<Rightarrow> nat \<Rightarrow> int \<Rightarrow> nat" where
  "ieee_encode eb mb s m e =
     (let bias = 2 ^ (eb - 1) - 1;
          E = int (bitlen m) - 1 + e;
          q = (if E < 1 - bias then 1 - bias - int mb else E - int mb);
          M = round_shift m (e - q);
          body = (if m = 0 then 0
                  else if E < 1 - bias then M
                  else nat (E + bias - 1) * 2 ^ mb + M);
          inf = (2 ^ eb - 1) * 2 ^ mb
      in (if s then 2 ^ (eb + mb) else 0) + (if inf \<le> body then inf else body))"

text \<open>A binary64 pattern: its sign, exponent field and fraction field.\<close>

definition f64_sign :: "64 word \<Rightarrow> bool" where
  "f64_sign w = bit w 63"

definition f64_exp :: "64 word \<Rightarrow> nat" where
  "f64_exp w = unat w div 2 ^ 52 mod 2 ^ 11"

definition f64_frac :: "64 word \<Rightarrow> nat" where
  "f64_frac w = unat w mod 2 ^ 52"

text \<open>For a finite pattern, the value is \<open>f64_m w * 2 ^ f64_e w\<close>.\<close>

definition f64_m :: "64 word \<Rightarrow> nat" where
  "f64_m w = (if f64_exp w = 0 then f64_frac w else 2 ^ 52 + f64_frac w)"

definition f64_e :: "64 word \<Rightarrow> int" where
  "f64_e w = (if f64_exp w = 0 then - 1074 else int (f64_exp w) - 1075)"

datatype jsnum_class = Finite | Infinite | NaN

definition f64_class :: "64 word \<Rightarrow> jsnum_class" where
  "f64_class w =
     (if f64_exp w = 2047 then (if f64_frac w = 0 then Infinite else NaN) else Finite)"

text \<open>
  The integer conversions of \<open>DataView\<close> setters start from the number truncated
  towards zero, with NaN and the infinities taken as 0.
\<close>

definition truncNumber :: "jsnum \<Rightarrow> int" where
  "truncNumber x =
     (case x of
        NInt n \<Rightarrow> n
      | NF64 w \<Rightarrow>
          (if f64_class w \<noteq> Finite then 0
           else (let v = (if 0 \<le> f64_e w then int (f64_m w) * 2 ^ nat (f64_e w)
                          else int (f64_m w div 2 ^ nat (- f64_e w)))
                 in if f64_sign w then - v else v)))"

definition isIntegral :: "jsnum \<Rightarrow> bool" where
  "isIntegral x =
     (case x of
        NInt n \<Rightarrow> True
      | NF64 w \<Rightarrow>
          f64_class w = Finite \<and> (0 \<le> f64_e w \<or> f64_m w mod 2 ^ nat (- f64_e w) = 0))"

definition float64_bits :: "jsnum \<Rightarrow> 64 word" where
  "float64_bits x =
     (case x of
        NInt n \<Rightarrow> of_nat (ieee_encode 11 52 (n < 0) (nat \<bar>n\<bar>) 0)
      | NF64 w \<Rightarrow> w)"

definition float32_bits :: "jsnum \<Rightarrow> 32 word" where
  "float32_bits x =
     (case x of
        NInt n \<Rightarrow> of_nat (ieee_encode 8 23 (n < 0) (nat \<bar>n\<bar>) 0)
      | NF64 w \<Rightarrow>
          (case f64_class w of
             Finite \<Rightarrow> of_nat (ieee_encode 8 23 (f64_sign w) (f64_m w) (f64_e w))
           | Infinite \<Rightarrow> (if f64_sign w then 0xFF800000 else 0x7F800000)
           | NaN \<Rightarrow> 0x7FC00000))"

text \<open>A binary32 pattern read as a Number.\<close>

definition float32_value :: "32 word \<Rightarrow> jsnum" where
  "float32_value w =
     (let s = bit w 31; ex = unat w div 2 ^ 23 mod 2 ^ 8; fr = unat w mod 2 ^ 23
      in if ex = 255
         then NF64 (if fr = 0 then (if s then 0xFFF0000000000000 else 0x7FF0000000000000)
                    else 0x7FF8000000000000)
         else NF64 (of_nat (ieee_encode 11 52 s (if ex = 0 then fr else 2 ^ 23 + fr)
                      (if ex = 0 then - 149 else int ex - 150))))"

text \<open>\<open>Number(bigint)\<close>.\<close>

definition numberOfBigInt :: "int \<Rightarrow> jsnum" where
  "numberOfBigInt i =
     (if \<bar>i\<bar> \<le> 2 ^ 53 then NInt i
      else NF64 (of_nat (ieee_encode 11 52 (i < 0) (nat \<bar>i\<bar>) 0)))"

subsection \<open>Buffers\<close>

text \<open>Little-endian bytes: \<open>w\<close> bytes of the value, and the value of a byte list.\<close>

fun le_bytes :: "nat \<Rightarrow> nat \<Rightarrow> byte list" where
  "le_bytes 0 v = []"
| "le_bytes (Suc w) v = of_nat (v mod 256) # le_bytes w (v div 256)"

fun le_value :: "byte list \<Rightarrow> nat" where
  "le_value [] = 0"
| "le_value (b # bs) = unat b + 256 * le_value bs"

text \<open>Two's complement reading of a \<open>w\<close>-byte value.\<close>

definition signed :: "nat \<Rightarrow> nat \<Rightarrow> int" where
  "signed w v = (if v < 2 ^ (8 * w - 1) then int v else int v - 2 ^ (8 * w))"

text \<open>
  A write of bytes into a buffer at an offset. Every \<open>DataView\<close> setter and every
  typed array constructed over a buffer throws a RangeError when the range leaves it.
\<close>

definition writeBytes :: "byte list \<Rightarrow> nat \<Rightarrow> byte list \<Rightarrow> error + byte list" where
  "writeBytes buf off bs =
     (if off + length bs \<le> length buf
      then Inr (take off buf @ bs @ drop (off + length bs) buf)
      else Inl RangeError)"

definition readBytes :: "byte list \<Rightarrow> nat \<Rightarrow> nat \<Rightarrow> error + byte list" where
  "readBytes buf off n =
     (if off + n \<le> length buf then Inr (take n (drop off buf)) else Inl RangeError)"

text \<open>The setters of a \<open>DataView\<close> that spans the whole buffer, little-endian.\<close>

definition setUint :: "nat \<Rightarrow> byte list \<Rightarrow> nat \<Rightarrow> jsnum \<Rightarrow> error + byte list" where
  "setUint w buf off x = writeBytes buf off (le_bytes w (nat (truncNumber x mod 2 ^ (8 * w))))"

definition setBigUint64 :: "byte list \<Rightarrow> nat \<Rightarrow> int \<Rightarrow> error + byte list" where
  "setBigUint64 buf off i = writeBytes buf off (le_bytes 8 (nat (i mod 2 ^ 64)))"

definition setFloat32 :: "byte list \<Rightarrow> nat \<Rightarrow> jsnum \<Rightarrow> error + byte list" where
  "setFloat32 buf off x = writeBytes buf off (le_bytes 4 (unat (float32_bits x)))"

definition setFloat64 :: "byte list \<Rightarrow> nat \<Rightarrow> jsnum \<Rightarrow> error + byte list" where
  "setFloat64 buf off x = writeBytes buf off (le_bytes 8 (unat (float64_bits x)))"

text \<open>
  An \<open>ArrayBufferView\<close>: a buffer, the offset of the view in it and the length of the
  view. The getters of a \<open>DataView\<close> throw a RangeError when the read leaves the view.
\<close>

record view =
  buffer :: "byte list"
  byteOffset :: nat
  byteLength :: nat

definition getBytes :: "view \<Rightarrow> nat \<Rightarrow> nat \<Rightarrow> error + byte list" where
  "getBytes v off n =
     (if off + n \<le> byteLength v then Inr (take n (drop (byteOffset v + off) (buffer v)))
      else Inl RangeError)"

definition getUint :: "nat \<Rightarrow> view \<Rightarrow> nat \<Rightarrow> error + nat" where
  "getUint w v off = (case getBytes v off w of Inl e \<Rightarrow> Inl e | Inr bs \<Rightarrow> Inr (le_value bs))"

section \<open>serde.ts: reading a message object\<close>

definition METADATA_DEFINITION :: msgdef where
  "METADATA_DEFINITION =
     \<lparr>name = ''cbufmsg::metadata'', namespaces = [''cbufmsg''],
      definitions =
        [(typeOnly ''uint64'')\<lparr>fname := ''msg_hash''\<rparr>,
         (typeOnly ''string'')\<lparr>fname := ''msg_name''\<rparr>,
         (typeOnly ''string'')\<lparr>fname := ''msg_meta''\<rparr>],
      hashValue = 0xbe6738d544ab72c6, isEnum = False, isEnumClass = False,
      isNakedStruct = False\<rparr>"

definition HEADER_SIZE :: nat where
  "HEADER_SIZE = 4 + 4 + 8 + 8"

definition CBUF_MAGIC :: nat where
  "CBUF_MAGIC = 0x56444e54"

text \<open>
  \<open>message[key]\<close>. Reading a property of \<open>undefined\<close> or \<open>null\<close> throws a TypeError.
  An object has its own properties, an array and a string have \<open>length\<close>; inherited
  properties are not part of the model.
\<close>

fun getProp :: "val \<Rightarrow> string \<Rightarrow> error + val" where
  "getProp VUndefined k = Inl TypeError"
| "getProp VNull k = Inl TypeError"
| "getProp (VObject ps) k = Inr (case map_of ps k of None \<Rightarrow> VUndefined | Some v \<Rightarrow> v)"
| "getProp (VArray xs) k =
     Inr (if k = ''length'' then VNumber (NInt (int (length xs))) else VUndefined)"
| "getProp (VTyped t xs) k =
     Inr (if k = ''length'' then VNumber (NInt (int (length xs))) else VUndefined)"
| "getProp (VString s) k =
     Inr (if k = ''length'' then VNumber (NInt (int (length s))) else VUndefined)"
| "getProp v k = Inr VUndefined"

text \<open>\<open>message[field.name] ?? field.defaultValue\<close>.\<close>

definition fieldValue :: "val \<Rightarrow> field \<Rightarrow> error + val" where
  "fieldValue msg f =
     (case getProp msg (fname f) of
        Inl e \<Rightarrow> Inl e
      | Inr v \<Rightarrow>
          Inr (if v = VUndefined \<or> v = VNull
               then (case defaultValue f of None \<Rightarrow> VUndefined | Some d \<Rightarrow> d)
               else v))"

text \<open>\<open>isArray(value) ? value : []\<close>, as the list of the elements.\<close>

fun arrayValueOf :: "val \<Rightarrow> val list" where
  "arrayValueOf (VArray xs) = xs"
| "arrayValueOf (VTyped t xs) = xs"
| "arrayValueOf v = []"

text \<open>\<open>typeof value === "string" ? value.length : 0\<close>.\<close>

fun stringLength :: "val \<Rightarrow> nat" where
  "stringLength (VString s) = length s"
| "stringLength v = 0"

text \<open>\<open>value != undefined && typeof value === "object" ? value : {}\<close>.\<close>

definition objectOrEmpty :: "val \<Rightarrow> val" where
  "objectOrEmpty v = (if v \<noteq> VUndefined \<and> v \<noteq> VNull \<and> typeof v = TObject then v else VObject [])"

text \<open>The byte width that the switches of serde.ts give the fixed-width types.\<close>

definition fixedWidth :: "string \<Rightarrow> nat option" where
  "fixedWidth t =
     (if t = ''bool'' \<or> t = ''uint8'' \<or> t = ''int8'' then Some 1
      else if t = ''uint16'' \<or> t = ''int16'' then Some 2
      else if t = ''uint32'' \<or> t = ''int32'' \<or> t = ''float32'' then Some 4
      else if t = ''uint64'' \<or> t = ''int64'' \<or> t = ''float64'' then Some 8
      else None)"

section \<open>serde.ts: the size of a message\<close>

text \<open>
  \<open>serializedNakedMessageSize\<close>, with its loop over the fields (\<open>sizeOfFields\<close>) and
  its loop over the elements of a struct array (\<open>sizeOfElements\<close>). The recursion
  follows the schema, so it carries fuel as \<open>hashBuf\<close> does.
\<close>

fun serializedNakedMessageSize :: "nat \<Rightarrow> schemaMap \<Rightarrow> msgdef \<Rightarrow> val \<Rightarrow> error + nat"
  and sizeOfFields :: "nat \<Rightarrow> schemaMap \<Rightarrow> msgdef \<Rightarrow> field list \<Rightarrow> val \<Rightarrow> error + nat"
  and sizeOfElements :: "nat \<Rightarrow> schemaMap \<Rightarrow> msgdef \<Rightarrow> val list \<Rightarrow> error + nat"
where
  "serializedNakedMessageSize 0 m d msg = Inl StackOverflow"
| "serializedNakedMessageSize (Suc n) m d msg = sizeOfFields n m d (definitions d) msg"
| "sizeOfFields n m d [] msg = Inr 0"
| "sizeOfFields n m d (f # fs) msg =
     (case fieldValue msg f of
        Inl e \<Rightarrow> Inl e
      | Inr v \<Rightarrow>
          (case
             (if isArray f then
                (let arrayValue = arrayValueOf v;
                     len = (case arrayLength f of None \<Rightarrow> length arrayValue | Some l \<Rightarrow> l);
                     prefix = (case arrayLength f of None \<Rightarrow> 4 | Some l \<Rightarrow> 0)
                 in (case fixedWidth (ftype f) of
                       Some w \<Rightarrow> Inr (prefix + len * w)
                     | None \<Rightarrow>
                         (if ftype f = ''string'' then
                            (case upperBound f of
                               None \<Rightarrow>
                                 Inr (prefix + len * 4 + sum_list (map stringLength arrayValue))
                             | Some ub \<Rightarrow> Inr (prefix + len * ub))
                          else if length arrayValue > 0 then
                            (case lookupMsgdef m (namespaces d) (ftype f) of
                               Inl e \<Rightarrow> Inl e
                             | Inr nd \<Rightarrow>
                                 (case sizeOfElements n m nd arrayValue of
                                    Inl e \<Rightarrow> Inl e
                                  | Inr s \<Rightarrow> Inr (prefix + s)))
                          else Inr prefix)))
              else if isComplex f then
                (case lookupMsgdef m (namespaces d) (ftype f) of
                   Inl e \<Rightarrow> Inl e
                 | Inr nd \<Rightarrow>
                     (case serializedNakedMessageSize n m nd (objectOrEmpty v) of
                        Inl e \<Rightarrow> Inl e
                      | Inr s \<Rightarrow> Inr ((if \<not> isNakedStruct nd then HEADER_SIZE else 0) + s)))
              else
                (case fixedWidth (ftype f) of
                   Some w \<Rightarrow> Inr w
                 | None \<Rightarrow>
                     (if ftype f = ''string'' then
                        (case upperBound f of
                           None \<Rightarrow> Inr (4 + stringLength v)
                         | Some ub \<Rightarrow> Inr ub)
                      else Inl (UnsupportedType (ftype f)))))
           of
             Inl e \<Rightarrow> Inl e
           | Inr s \<Rightarrow>
               (case sizeOfFields n m d fs msg of
                  Inl e \<Rightarrow> Inl e
                | Inr rest \<Rightarrow> Inr (s + rest))))"
| "sizeOfElements n m nd [] = Inr 0"
| "sizeOfElements n m nd (element # es) =
     (case serializedNakedMessageSize n m nd (objectOrEmpty element) of
        Inl e \<Rightarrow> Inl e
      | Inr s \<Rightarrow>
          (case sizeOfElements n m nd es of
             Inl e \<Rightarrow> Inl e
           | Inr rest \<Rightarrow> Inr (s + rest)))"

text \<open>\<open>CbufMessageData\<close>, the input of the serializer.\<close>

record CbufMessageData =
  typeName :: string
  timestamp :: jsnum
  message :: val

definition findMsgdef :: "schemaMap \<Rightarrow> string \<Rightarrow> error + msgdef" where
  "findMsgdef nameToSchema tn =
     (if tn = name METADATA_DEFINITION then Inr METADATA_DEFINITION
      else (case nameToSchema tn of
              None \<Rightarrow> Inl (UnknownMessageType tn)
            | Some d \<Rightarrow> Inr d))"

definition serializedMessageSize :: "nat \<Rightarrow> schemaMap \<Rightarrow> CbufMessageData \<Rightarrow> error + nat" where
  "serializedMessageSize fuel nameToSchema msg =
     (if typeof (message msg) \<noteq> TObject then Inl MessageNotObject
      else (case findMsgdef nameToSchema (typeName msg) of
              Inl e \<Rightarrow> Inl e
            | Inr d \<Rightarrow>
                (case serializedNakedMessageSize fuel nameToSchema d (message msg) of
                   Inl e \<Rightarrow> Inl e
                 | Inr s \<Rightarrow> Inr (HEADER_SIZE + s))))"

section \<open>serde.ts: the serializer\<close>

fun getNumber :: "val \<Rightarrow> jsnum" where
  "getNumber (VNumber x) = x"
| "getNumber (VBigInt i) = numberOfBigInt i"
| "getNumber (VBool b) = NInt (if b then 1 else 0)"
| "getNumber v = NInt 0"

text \<open>\<open>BigInt(value)\<close> throws a RangeError on a number that is not an integer.\<close>

fun getBigInt :: "val \<Rightarrow> error + int" where
  "getBigInt (VBigInt i) = Inr i"
| "getBigInt (VNumber x) = (if isIntegral x then Inr (truncNumber x) else Inl RangeError)"
| "getBigInt (VBool b) = Inr (if b then 1 else 0)"
| "getBigInt v = Inr 0"

text \<open>
  The \<open>string\<close> case of the switch of \<open>serializeNonArrayField\<close>. The buffer is the
  whole \<open>ArrayBuffer\<close> of the view, whose offset in it is 0. The result is the new
  \<open>innerOffset\<close> and the buffer.
\<close>

definition serializeString :: "field \<Rightarrow> val \<Rightarrow> byte list \<Rightarrow> nat \<Rightarrow> error + nat \<times> byte list" where
  "serializeString f v buf curOffset =
     (case (case upperBound f of
              None \<Rightarrow>
                (case setUint 4 buf curOffset (NInt (int (stringLength v))) of
                   Inl e \<Rightarrow> Inl e
                 | Inr b \<Rightarrow> Inr (stringLength v, 4, b))
            | Some ub \<Rightarrow> Inr (ub, 0, buf))
      of
        Inl e \<Rightarrow> Inl e
      | Inr (len, innerOffset, b) \<Rightarrow>
          (if len > 0 then
             (if curOffset + innerOffset + len \<le> length b then
                (case (case v of
                         VString s \<Rightarrow>
                           (if length s > 0
                            then writeBytes b (curOffset + innerOffset) (take len (textEncode s))
                            else writeBytes b (curOffset + innerOffset) (replicate len 0))
                       | _ \<Rightarrow> writeBytes b (curOffset + innerOffset) (replicate len 0))
                 of
                   Inl e \<Rightarrow> Inl e
                 | Inr b' \<Rightarrow> Inr (innerOffset + len, b'))
              else Inl RangeError)
           else Inr (innerOffset, b)))"

text \<open>The switch of \<open>serializeNonArrayField\<close> for a field that is not complex.\<close>

definition serializeBasic :: "field \<Rightarrow> val \<Rightarrow> byte list \<Rightarrow> nat \<Rightarrow> error + nat \<times> byte list" where
  "serializeBasic f v buf curOffset =
     (let t = ftype f;
          done = (\<lambda>w r. case r of Inl e \<Rightarrow> Inl e | Inr b \<Rightarrow> Inr (w, b))
      in if t = ''bool'' \<or> t = ''uint8'' \<or> t = ''int8''
         then done 1 (setUint 1 buf curOffset (getNumber v))
         else if t = ''uint16'' \<or> t = ''int16''
         then done 2 (setUint 2 buf curOffset (getNumber v))
         else if t = ''uint32'' \<or> t = ''int32''
         then done 4 (setUint 4 buf curOffset (getNumber v))
         else if t = ''float32''
         then done 4 (setFloat32 buf curOffset (getNumber v))
         else if t = ''uint64'' \<or> t = ''int64''
         then (case getBigInt v of
                 Inl e \<Rightarrow> Inl e
               | Inr i \<Rightarrow> done 8 (setBigUint64 buf curOffset i))
         else if t = ''float64''
         then done 8 (setFloat64 buf curOffset (getNumber v))
         else if t = ''string''
         then serializeString f v buf curOffset
         else Inl (UnsupportedType t))"

text \<open>
  The preamble: magic, size word, hash and timestamp, written at \<open>curOffset\<close>. A
  setter of an unsigned integer stores its argument modulo \<open>2^32\<close>.
\<close>

definition writeHeader :: "byte list \<Rightarrow> nat \<Rightarrow> nat \<Rightarrow> nat \<Rightarrow> jsnum \<Rightarrow> error + byte list" where
  "writeHeader buf curOffset sz hash ts =
     (case setUint 4 buf curOffset (NInt (int CBUF_MAGIC)) of
        Inl e \<Rightarrow> Inl e
      | Inr b1 \<Rightarrow>
          (case setUint 4 b1 (curOffset + 4) (NInt (int sz)) of
             Inl e \<Rightarrow> Inl e
           | Inr b2 \<Rightarrow>
               (case setBigUint64 b2 (curOffset + 8) (int hash) of
                  Inl e \<Rightarrow> Inl e
                | Inr b3 \<Rightarrow> setFloat64 b3 (curOffset + 16) ts)))"

text \<open>
  \<open>serializeNakedMessage\<close> and \<open>serializeNonArrayField\<close>, with the loop over the fields
  (\<open>serializeFields\<close>, which carries \<open>innerOffset\<close>) and the loop
  \<open>for (let i = 0; i < arrayLength; i++)\<close> over the elements (\<open>serializeElements\<close>,
  which carries the elements from index \<open>i\<close> on and the number of rounds left;
  \<open>arrayValue[i]\<close> is \<open>undefined\<close> past the end). Each returns the number of bytes
  written and the buffer.
\<close>

function (sequential) serializeNakedMessage ::
    "nat \<Rightarrow> schemaMap \<Rightarrow> msgdef \<Rightarrow> val \<Rightarrow> byte list \<Rightarrow> nat \<Rightarrow> error + nat \<times> byte list"
  and serializeFields ::
    "nat \<Rightarrow> schemaMap \<Rightarrow> msgdef \<Rightarrow> field list \<Rightarrow> val \<Rightarrow> byte list \<Rightarrow> nat \<Rightarrow> nat
       \<Rightarrow> error + nat \<times> byte list"
  and serializeElements ::
    "nat \<Rightarrow> schemaMap \<Rightarrow> string list \<Rightarrow> field \<Rightarrow> val list \<Rightarrow> nat \<Rightarrow> byte list \<Rightarrow> nat \<Rightarrow> nat
       \<Rightarrow> error + nat \<times> byte list"
  and serializeNonArrayField ::
    "nat \<Rightarrow> schemaMap \<Rightarrow> string list \<Rightarrow> field \<Rightarrow> val \<Rightarrow> byte list \<Rightarrow> nat
       \<Rightarrow> error + nat \<times> byte list"
where
  "serializeNakedMessage 0 m d msg buf offset = Inl StackOverflow"
| "serializeNakedMessage (Suc n) m d msg buf offset =
     serializeFields n m d (definitions d) msg buf offset 0"
| "serializeFields n m d [] msg buf offset innerOffset = Inr (innerOffset, buf)"
| "serializeFields n m d (f # fs) msg buf offset innerOffset =
     (case fieldValue msg f of
        Inl e \<Rightarrow> Inl e
      | Inr v \<Rightarrow>
          (case
             (if isArray f then
                (case (case arrayLength f of
                         None \<Rightarrow>
                           (case setUint 4 buf (offset + innerOffset)
                                   (NInt (int (length (arrayValueOf v)))) of
                              Inl e \<Rightarrow> Inl e
                            | Inr b \<Rightarrow> Inr (length (arrayValueOf v), innerOffset + 4, b))
                       | Some l \<Rightarrow> Inr (l, innerOffset, buf))
                 of
                   Inl e \<Rightarrow> Inl e
                 | Inr (len, inner, b) \<Rightarrow>
                     serializeElements n m (namespaces d) f (arrayValueOf v) len b offset inner)
              else
                (case serializeNonArrayField n m (namespaces d) f v buf (offset + innerOffset) of
                   Inl e \<Rightarrow> Inl e
                 | Inr (k, b) \<Rightarrow> Inr (innerOffset + k, b)))
           of
             Inl e \<Rightarrow> Inl e
           | Inr (inner, b) \<Rightarrow> serializeFields n m d fs msg b offset inner))"
| "serializeElements n m ns f vs 0 buf offset innerOffset = Inr (innerOffset, buf)"
| "serializeElements n m ns f vs (Suc c) buf offset innerOffset =
     (case serializeNonArrayField n m ns f (case vs of [] \<Rightarrow> VUndefined | v # rest \<Rightarrow> v)
             buf (offset + innerOffset) of
        Inl e \<Rightarrow> Inl e
      | Inr (k, b) \<Rightarrow> serializeElements n m ns f (tl vs) c b offset (innerOffset + k))"
| "serializeNonArrayField n m ns f v buf curOffset =
     (if isComplex f then
        (case lookupMsgdef m ns (ftype f) of
           Inl e \<Rightarrow> Inl e
         | Inr nd \<Rightarrow>
             (case (if \<not> isNakedStruct nd then
                      (case serializedNakedMessageSize n m nd v of
                         Inl e \<Rightarrow> Inl e
                       | Inr nestedSize \<Rightarrow>
                           (case writeHeader buf curOffset (HEADER_SIZE + nestedSize)
                                   (hashValue nd) (NInt 0) of
                              Inl e \<Rightarrow> Inl e
                            | Inr b \<Rightarrow> Inr (HEADER_SIZE, b)))
                    else Inr (0, buf))
              of
                Inl e \<Rightarrow> Inl e
              | Inr (innerOffset, b) \<Rightarrow>
                  (case serializeNakedMessage n m nd v b (curOffset + innerOffset) of
                     Inl e \<Rightarrow> Inl e
                   | Inr (k, b') \<Rightarrow> Inr (innerOffset + k, b'))))
      else serializeBasic f v buf curOffset)"
  by pat_completeness auto

termination
  by (relation
        "measures
           [case_sum (case_sum (\<lambda>p. fst p) (\<lambda>p. fst p)) (case_sum (\<lambda>p. fst p) (\<lambda>p. fst p)),
            case_sum (case_sum (\<lambda>p. 0) (\<lambda>p. 3)) (case_sum (\<lambda>p. 2) (\<lambda>p. 1)),
            case_sum
              (case_sum (\<lambda>p. 0) (\<lambda>(n, m, d, fs, r). length fs))
              (case_sum (\<lambda>(n, m, ns, f, vs, c, r). c) (\<lambda>p. 0))]")
     auto

text \<open>
  \<open>serializeMessage\<close>: a fresh buffer of \<open>serializedMessageSize\<close> zero bytes, the
  preamble, then the payload.
\<close>

definition serializeMessage :: "nat \<Rightarrow> schemaMap \<Rightarrow> CbufMessageData \<Rightarrow> error + byte list" where
  "serializeMessage fuel nameToSchema msg =
     (case findMsgdef nameToSchema (typeName msg) of
        Inl e \<Rightarrow> Inl e
      | Inr d \<Rightarrow>
          (case serializedMessageSize fuel nameToSchema msg of
             Inl e \<Rightarrow> Inl e
           | Inr sz \<Rightarrow>
               (case writeHeader (replicate sz 0) 0 sz (hashValue d) (timestamp msg) of
                  Inl e \<Rightarrow> Inl e
                | Inr b \<Rightarrow>
                    (case serializeNakedMessage fuel nameToSchema d (message msg) b HEADER_SIZE of
                       Inl e \<Rightarrow> Inl e
                     | Inr (k, b') \<Rightarrow> Inr b'))))"

text \<open>
  The offset that \<open>serializeMessage\<close> has reached when it returns: the number of bytes
  it has written, preamble included.
\<close>

definition serializeMessageEnd :: "nat \<Rightarrow> schemaMap \<Rightarrow> CbufMessageData \<Rightarrow> error + nat" where
  "serializeMessageEnd fuel nameToSchema msg =
     (case findMsgdef nameToSchema (typeName msg) of
        Inl e \<Rightarrow> Inl e
      | Inr d \<Rightarrow>
          (case serializedMessageSize fuel nameToSchema msg of
             Inl e \<Rightarrow> Inl e
           | Inr sz \<Rightarrow>
               (case writeHeader (replicate sz 0) 0 sz (hashValue d) (timestamp msg) of
                  Inl e \<Rightarrow> Inl e
                | Inr b \<Rightarrow>
                    (case serializeNakedMessage fuel nameToSchema d (message msg) b HEADER_SIZE of
                       Inl e \<Rightarrow> Inl e
                     | Inr (k, b') \<Rightarrow> Inr (HEADER_SIZE + k)))))"

section \<open>serde.ts: the deserializer\<close>

text \<open>\<open>CbufMessage\<close>, the output of the deserializer.\<close>

record CbufMessage =
  msg_typeName :: string
  msg_size :: nat
  msg_variant :: nat
  msg_hashValue :: nat
  msg_timestamp :: jsnum
  msg_message :: val

text \<open>The decoding of the word \<open>sizeAndVariant\<close> in \<open>deserializeMessage\<close>.\<close>

definition hasVariant :: "32 word \<Rightarrow> bool" where
  "hasVariant sizeAndVariant = (sizeAndVariant AND 0x8000000 = 0x8000000)"

definition sizeOf :: "32 word \<Rightarrow> nat" where
  "sizeOf sizeAndVariant =
     (if hasVariant sizeAndVariant then unat (sizeAndVariant AND 0x07ffffff)
      else unat (sizeAndVariant AND 0x7fffffff))"

text \<open>\<open>>>\<close> shifts the word as a signed 32-bit integer.\<close>

definition variantOf :: "32 word \<Rightarrow> nat" where
  "variantOf sizeAndVariant =
     (if hasVariant sizeAndVariant then unat (signed_drop_bit 27 sizeAndVariant AND 0x0f)
      else 0)"

text \<open>\<open>output[key] = v\<close> on the list of the properties of an object.\<close>

fun setProp :: "(string \<times> val) list \<Rightarrow> string \<Rightarrow> val \<Rightarrow> (string \<times> val) list" where
  "setProp [] k v = [(k, v)]"
| "setProp ((k', v') # ps) k v = (if k' = k then (k, v) # ps else (k', v') # setProp ps k v)"

text \<open>
  \<open>readBasicType\<close>: the bytes consumed and the output object with the field set. A
  string is read through a \<open>Uint8Array\<close> over the buffer of the view.
\<close>

definition readString :: "view \<Rightarrow> nat \<Rightarrow> field \<Rightarrow> error + nat \<times> val" where
  "readString v offset f =
     (case (case upperBound f of
              None \<Rightarrow>
                (case getUint 4 v offset of Inl e \<Rightarrow> Inl e | Inr l \<Rightarrow> Inr (l, 4))
            | Some ub \<Rightarrow> Inr (ub, 0))
      of
        Inl e \<Rightarrow> Inl e
      | Inr (len, curOffset) \<Rightarrow>
          (case readBytes (buffer v) (byteOffset v + offset + curOffset) len of
             Inl e \<Rightarrow> Inl e
           | Inr bytes \<Rightarrow> Inr (curOffset + len, VString (beforeNull (textDecode bytes)))))"

definition readBasicValue :: "view \<Rightarrow> nat \<Rightarrow> field \<Rightarrow> error + nat \<times> val" where
  "readBasicValue v offset f =
     (let t = ftype f;
          num = (\<lambda>w g. case getUint w v offset of Inl e \<Rightarrow> Inl e | Inr x \<Rightarrow> Inr (w, g x))
      in if t = ''bool'' then num 1 (\<lambda>x. VBool (x \<noteq> 0))
         else if t = ''int8'' then num 1 (\<lambda>x. VNumber (NInt (signed 1 x)))
         else if t = ''uint8'' then num 1 (\<lambda>x. VNumber (NInt (int x)))
         else if t = ''int16'' then num 2 (\<lambda>x. VNumber (NInt (signed 2 x)))
         else if t = ''uint16'' then num 2 (\<lambda>x. VNumber (NInt (int x)))
         else if t = ''int32'' then num 4 (\<lambda>x. VNumber (NInt (signed 4 x)))
         else if t = ''uint32'' then num 4 (\<lambda>x. VNumber (NInt (int x)))
         else if t = ''int64'' then num 8 (\<lambda>x. VBigInt (signed 8 x))
         else if t = ''uint64'' then num 8 (\<lambda>x. VBigInt (int x))
         else if t = ''float32'' then num 4 (\<lambda>x. VNumber (float32_value (of_nat x)))
         else if t = ''float64'' then num 8 (\<lambda>x. VNumber (NF64 (of_nat x)))
         else if t = ''string'' then readString v offset f
         else Inl (UnsupportedType t))"

definition readBasicType ::
    "view \<Rightarrow> nat \<Rightarrow> (string \<times> val) list \<Rightarrow> field \<Rightarrow> error + nat \<times> (string \<times> val) list" where
  "readBasicType v offset msg f =
     (case readBasicValue v offset f of
        Inl e \<Rightarrow> Inl e
      | Inr (k, x) \<Rightarrow> Inr (k, setProp msg (fname f) x))"

text \<open>
  \<open>typedArray\<close>: a typed array over \<open>length\<close> elements of the buffer from \<open>offset\<close>,
  aliased or copied; either way its elements are the little-endian values there.
\<close>

definition widthOf :: "tkind \<Rightarrow> nat" where
  "widthOf t =
     (case t of U8 \<Rightarrow> 1 | I8 \<Rightarrow> 1 | U16 \<Rightarrow> 2 | I16 \<Rightarrow> 2 | U32 \<Rightarrow> 4 | I32 \<Rightarrow> 4
      | F32 \<Rightarrow> 4 | U64 \<Rightarrow> 8 | I64 \<Rightarrow> 8 | F64 \<Rightarrow> 8)"

definition elementOf :: "tkind \<Rightarrow> byte list \<Rightarrow> val" where
  "elementOf t bs =
     (case t of
        U8 \<Rightarrow> VNumber (NInt (int (le_value bs)))
      | U16 \<Rightarrow> VNumber (NInt (int (le_value bs)))
      | U32 \<Rightarrow> VNumber (NInt (int (le_value bs)))
      | I8 \<Rightarrow> VNumber (NInt (signed 1 (le_value bs)))
      | I16 \<Rightarrow> VNumber (NInt (signed 2 (le_value bs)))
      | I32 \<Rightarrow> VNumber (NInt (signed 4 (le_value bs)))
      | U64 \<Rightarrow> VBigInt (int (le_value bs))
      | I64 \<Rightarrow> VBigInt (signed 8 (le_value bs))
      | F32 \<Rightarrow> VNumber (float32_value (of_nat (le_value bs)))
      | F64 \<Rightarrow> VNumber (NF64 (of_nat (le_value bs))))"

fun elementsOf :: "tkind \<Rightarrow> nat \<Rightarrow> byte list \<Rightarrow> val list" where
  "elementsOf t 0 bs = []"
| "elementsOf t (Suc n) bs =
     elementOf t (take (widthOf t) bs) # elementsOf t n (drop (widthOf t) bs)"

definition typedArray :: "tkind \<Rightarrow> byte list \<Rightarrow> nat \<Rightarrow> nat \<Rightarrow> error + val" where
  "typedArray t buf offset len =
     (case readBytes buf offset (len * widthOf t) of
        Inl e \<Rightarrow> Inl e
      | Inr bs \<Rightarrow> Inr (VTyped t (elementsOf t len bs)))"

definition typedKind :: "string \<Rightarrow> tkind option" where
  "typedKind t =
     (if t = ''uint8'' then Some U8 else if t = ''int8'' then Some I8
      else if t = ''uint16'' then Some U16 else if t = ''int16'' then Some I16
      else if t = ''uint32'' then Some U32 else if t = ''int32'' then Some I32
      else if t = ''uint64'' then Some U64 else if t = ''int64'' then Some I64
      else if t = ''float32'' then Some F32 else if t = ''float64'' then Some F64
      else None)"

text \<open>The loop of the \<open>bool\<close> array case: \<open>count\<close> bytes from \<open>offset\<close> of the view.\<close>

fun readBools :: "view \<Rightarrow> nat \<Rightarrow> nat \<Rightarrow> error + val list" where
  "readBools v offset 0 = Inr []"
| "readBools v offset (Suc c) =
     (case getUint 1 v offset of
        Inl e \<Rightarrow> Inl e
      | Inr x \<Rightarrow>
          (case readBools v (offset + 1) c of
             Inl e \<Rightarrow> Inl e
           | Inr xs \<Rightarrow> Inr (VBool (x \<noteq> 0) # xs)))"

text \<open>
  The head of \<open>deserializeMessage\<close>: the check of the offset and the \<open>DataView\<close>
  from it on, which the constructor refuses with a RangeError when it leaves the buffer
  or has a negative length.
\<close>

definition openView :: "view \<Rightarrow> nat \<Rightarrow> error + view" where
  "openView data offset =
     (if offset \<ge> byteOffset data + byteLength data then Inl InvalidOffset
      else if offset > byteLength data \<or> byteOffset data + byteLength data > length (buffer data)
      then Inl RangeError
      else Inr \<lparr>buffer = buffer data, byteOffset = byteOffset data + offset,
                byteLength = byteLength data - offset\<rparr>)"

text \<open>
  The preamble as \<open>deserializeMessage\<close> reads it: the checks of the length and of
  the magic, the word \<open>sizeAndVariant\<close> with the check of the size, the hash and the
  timestamp.
\<close>

definition readPreamble :: "view \<Rightarrow> error + 32 word \<times> nat \<times> jsnum" where
  "readPreamble v =
     (if byteLength v < 24 then Inl BufferTooSmall
      else
        (case getUint 4 v 0 of
           Inl e \<Rightarrow> Inl e
         | Inr magic \<Rightarrow>
             (if magic \<noteq> CBUF_MAGIC then Inl BadMagic
              else
                (case getUint 4 v 4 of
                   Inl e \<Rightarrow> Inl e
                 | Inr sizeAndVariant \<Rightarrow>
                     (if sizeOf (of_nat sizeAndVariant) > byteLength v then Inl SizeExceedsBuffer
                      else
                        (case getUint 8 v 8 of
                           Inl e \<Rightarrow> Inl e
                         | Inr hash \<Rightarrow>
                             (case getUint 8 v 16 of
                                Inl e \<Rightarrow> Inl e
                              | Inr ts \<Rightarrow>
                                  Inr (of_nat sizeAndVariant, hash, NF64 (of_nat ts)))))))))"

text \<open>
  \<open>deserializeMessage\<close>, \<open>deserializeNakedMessage\<close> and \<open>readNonArrayField\<close>, with the
  loop over the fields (\<open>readFields\<close>) and the loop of the default array case
  (\<open>readElements\<close>, which carries the object \<open>fieldOutput\<close> and the array built so
  far). The offset argument of \<open>deserializeMessage\<close> is a natural number: \<open>undefined\<close>
  is 0, and a negative offset is rejected before anything is read.
\<close>

function (sequential) deserializeMessage ::
    "nat \<Rightarrow> schemaMap \<Rightarrow> (nat \<rightharpoonup> msgdef) \<Rightarrow> view \<Rightarrow> nat \<Rightarrow> error + CbufMessage"
  and deserializeNakedMessage ::
    "nat \<Rightarrow> schemaMap \<Rightarrow> (nat \<rightharpoonup> msgdef) \<Rightarrow> msgdef \<Rightarrow> view \<Rightarrow> nat \<Rightarrow> (string \<times> val) list
       \<Rightarrow> error + nat \<times> (string \<times> val) list"
  and readFields ::
    "nat \<Rightarrow> schemaMap \<Rightarrow> (nat \<rightharpoonup> msgdef) \<Rightarrow> msgdef \<Rightarrow> field list \<Rightarrow> view \<Rightarrow> nat \<Rightarrow> nat
       \<Rightarrow> (string \<times> val) list \<Rightarrow> error + nat \<times> (string \<times> val) list"
  and readElements ::
    "nat \<Rightarrow> schemaMap \<Rightarrow> (nat \<rightharpoonup> msgdef) \<Rightarrow> field \<Rightarrow> string list \<Rightarrow> view \<Rightarrow> nat \<Rightarrow> nat \<Rightarrow> nat
       \<Rightarrow> (string \<times> val) list \<Rightarrow> val list \<Rightarrow> error + nat \<times> val list"
  and readNonArrayField ::
    "nat \<Rightarrow> schemaMap \<Rightarrow> (nat \<rightharpoonup> msgdef) \<Rightarrow> field \<Rightarrow> string list \<Rightarrow> view \<Rightarrow> nat
       \<Rightarrow> (string \<times> val) list \<Rightarrow> error + nat \<times> (string \<times> val) list"
where
  "deserializeMessage n m h data offset =
     (case openView data offset of
        Inl e \<Rightarrow> Inl e
      | Inr v \<Rightarrow>
          (case readPreamble v of
             Inl e \<Rightarrow> Inl e
           | Inr (sizeAndVariant, hash, ts) \<Rightarrow>
               (case (if hash = hashValue METADATA_DEFINITION
                      then Some METADATA_DEFINITION else h hash) of
                  None \<Rightarrow> Inl HashNotFound
                | Some d \<Rightarrow>
                    (case deserializeNakedMessage n m h d v 24 [] of
                       Inl e \<Rightarrow> Inl e
                     | Inr (k, msg) \<Rightarrow>
                         (if 24 + k \<noteq> sizeOf sizeAndVariant then Inl SizeMismatch
                          else Inr
                            \<lparr>msg_typeName = name d,
                             msg_size = sizeOf sizeAndVariant,
                             msg_variant = variantOf sizeAndVariant,
                             msg_hashValue = hash,
                             msg_timestamp = ts,
                             msg_message = VObject msg\<rparr>)))))"
| "deserializeNakedMessage 0 m h d v offset output = Inl StackOverflow"
| "deserializeNakedMessage (Suc n) m h d v offset output =
     readFields n m h d (definitions d) v offset 0 output"
| "readFields n m h d [] v offset innerOffset output = Inr (innerOffset, output)"
| "readFields n m h d (f # fs) v offset innerOffset output =
     (case
        (if isArray f then
           (case (case arrayLength f of
                    None \<Rightarrow>
                      (case getUint 4 v (offset + innerOffset) of
                         Inl e \<Rightarrow> Inl e
                       | Inr l \<Rightarrow> Inr (l, innerOffset + 4))
                  | Some l \<Rightarrow> Inr (l, innerOffset))
            of
              Inl e \<Rightarrow> Inl e
            | Inr (len, inner) \<Rightarrow>
                (if ftype f = ''bool'' then
                   (case readBools v (offset + inner) len of
                      Inl e \<Rightarrow> Inl e
                    | Inr xs \<Rightarrow> Inr (inner + len, setProp output (fname f) (VArray xs)))
                 else
                   (case typedKind (ftype f) of
                      Some t \<Rightarrow>
                        (case typedArray t (buffer v) (byteOffset v + offset + inner) len of
                           Inl e \<Rightarrow> Inl e
                         | Inr a \<Rightarrow> Inr (inner + len * widthOf t, setProp output (fname f) a))
                    | None \<Rightarrow>
                        (case readElements n m h f (namespaces d) v offset inner len [] [] of
                           Inl e \<Rightarrow> Inl e
                         | Inr (inner', xs) \<Rightarrow>
                             Inr (inner', setProp output (fname f) (VArray xs))))))
         else
           (case readNonArrayField n m h f (namespaces d) v (offset + innerOffset) output of
              Inl e \<Rightarrow> Inl e
            | Inr (k, output') \<Rightarrow> Inr (innerOffset + k, output')))
      of
        Inl e \<Rightarrow> Inl e
      | Inr (inner, output') \<Rightarrow> readFields n m h d fs v offset inner output')"
| "readElements n m h f ns v offset innerOffset 0 fieldOutput array = Inr (innerOffset, array)"
| "readElements n m h f ns v offset innerOffset (Suc c) fieldOutput array =
     (case readNonArrayField n m h f ns v (offset + innerOffset) fieldOutput of
        Inl e \<Rightarrow> Inl e
      | Inr (k, fieldOutput') \<Rightarrow>
          readElements n m h f ns v offset (innerOffset + k) c fieldOutput'
            (array @ [case map_of fieldOutput' (fname f) of None \<Rightarrow> VUndefined | Some x \<Rightarrow> x]))"
| "readNonArrayField n m h f ns v offset output =
     (if isComplex f then
        (case lookupMsgdef m ns (ftype f) of
           Inl e \<Rightarrow> Inl e
         | Inr nd \<Rightarrow>
             (if isNakedStruct nd then
                (case deserializeNakedMessage n m h nd v offset [] of
                   Inl e \<Rightarrow> Inl e
                 | Inr (k, nested) \<Rightarrow> Inr (k, setProp output (fname f) (VObject nested)))
              else
                (case deserializeMessage n m h v offset of
                   Inl e \<Rightarrow> Inl e
                 | Inr nestedMessage \<Rightarrow>
                     Inr (msg_size nestedMessage,
                          setProp output (fname f) (msg_message nestedMessage)))))
      else readBasicType v offset output f)"
  by pat_completeness auto

termination
  by (relation
        "measures
           [case_sum (case_sum (\<lambda>p. fst p) (\<lambda>p. fst p))
              (case_sum (\<lambda>p. fst p) (case_sum (\<lambda>p. fst p) (\<lambda>p. fst p))),
            case_sum (case_sum (\<lambda>p. 1) (\<lambda>p. 0))
              (case_sum (\<lambda>p. 4) (case_sum (\<lambda>p. 3) (\<lambda>p. 2))),
            case_sum (case_sum (\<lambda>p. 0) (\<lambda>p. 0))
              (case_sum (\<lambda>(n, m, h, d, fs, r). length fs)
                 (case_sum (\<lambda>(n, m, h, f, ns, v, off, inner, c, r). c) (\<lambda>p. 0)))]")
     auto

section \<open>parse.ts: the preprocessor\<close>

text \<open>
  The three regular expressions of \<open>preprocessRecursive\<close> are written out as scans
  that carry the number of characters still to skip. A line terminator ends what \<open>.\<close>
  matches and is where \<open>$\<close> matches; \<open>\s\<close> is the white space below. Texts are
  strings of 8-bit characters.
\<close>

definition isLineTerminator :: "char \<Rightarrow> bool" where
  "isLineTerminator c = (c = CHR 0x0A \<or> c = CHR 0x0D)"

definition isSpace :: "char \<Rightarrow> bool" where
  "isSpace c =
     (c = CHR 0x09 \<or> c = CHR 0x0A \<or> c = CHR 0x0B \<or> c = CHR 0x0C \<or> c = CHR 0x0D
      \<or> c = CHR 0x20 \<or> c = CHR 0xA0)"

definition restOfLine :: "string \<Rightarrow> string" where
  "restOfLine s = takeWhile (\<lambda>c. \<not> isLineTerminator c) s"

text \<open>\<open>.replace(/\/\/.*$/gm, "")\<close>.\<close>

fun stripLine :: "nat \<Rightarrow> string \<Rightarrow> string" where
  "stripLine k [] = []"
| "stripLine (Suc k) (c # cs) = stripLine k cs"
| "stripLine 0 (c # cs) =
     (if startsWith (c # cs) ''//'' then stripLine (length (restOfLine cs)) cs
      else c # stripLine 0 cs)"

text \<open>The index of the first occurrence of a pattern.\<close>

fun indexOf :: "string \<Rightarrow> string \<Rightarrow> nat option" where
  "indexOf pat [] = (if pat = [] then Some 0 else None)"
| "indexOf pat (c # cs) =
     (if startsWith (c # cs) pat then Some 0 else map_option Suc (indexOf pat cs))"

text \<open>
  \<open>.replace(/\/\*[\s\S]*?\*\//g, "")\<close>: a comment opened at \<open>/*\<close> runs to the first
  \<open>*/\<close> after it; where none follows, the two characters stay.
\<close>

fun stripBlock :: "nat \<Rightarrow> string \<Rightarrow> string" where
  "stripBlock k [] = []"
| "stripBlock (Suc k) (c # cs) = stripBlock k cs"
| "stripBlock 0 (c # cs) =
     (if startsWith (c # cs) ''/*'' then
        (case indexOf ''*/'' (drop 1 cs) of
           Some i \<Rightarrow> stripBlock (1 + i + 2) cs
         | None \<Rightarrow> c # stripBlock 0 cs)
      else c # stripBlock 0 cs)"

definition removeComments :: "string \<Rightarrow> string" where
  "removeComments messageDefinition = stripBlock 0 (stripLine 0 messageDefinition)"

text \<open>
  One match of \<open>/#import\s+"(.+)"/\<close> at the head of a text: the statement matched and
  the path captured. The capture is greedy, so it runs to the last double quote of the
  line, and it is not empty.
\<close>

definition lastQuote :: "string \<Rightarrow> nat option" where
  "lastQuote line =
     (case indexOf [CHR 0x22] (rev line) of
        None \<Rightarrow> None
      | Some i \<Rightarrow> Some (length line - 1 - i))"

definition matchImport :: "string \<Rightarrow> (string \<times> string) option" where
  "matchImport s =
     (if startsWith s ''#import'' then
        (let after = drop 7 s; ws = takeWhile isSpace after; r = dropWhile isSpace after
         in if ws = [] then None
            else (case r of
                    [] \<Rightarrow> None
                  | q # body \<Rightarrow>
                      (if q \<noteq> CHR 0x22 then None
                       else (case lastQuote (restOfLine body) of
                               None \<Rightarrow> None
                             | Some j \<Rightarrow>
                                 (if j = 0 then None
                                  else Some (''#import'' @ ws @ [q] @ take j (restOfLine body) @ [q],
                                             take j (restOfLine body)))))))
      else None)"

text \<open>\<open>.match(/#import\s+"(.+)"/g)\<close>, each statement with its path.\<close>

fun scanImports :: "nat \<Rightarrow> string \<Rightarrow> (string \<times> string) list" where
  "scanImports k [] = []"
| "scanImports (Suc k) (c # cs) = scanImports k cs"
| "scanImports 0 (c # cs) =
     (case matchImport (c # cs) of
        Some (statement, path) \<Rightarrow> (statement, path) # scanImports (length statement - 1) cs
      | None \<Rightarrow> scanImports 0 cs)"





text \<open>
  The paths of the import statements of a text, and the paths that the expansion of a
  text can reach: those of its own statements and those of the statements of every
  reached path that the map gives a content that is not empty.
\<close>

definition directives :: "string \<Rightarrow> string list" where
  "directives text = map snd (scanImports 0 (removeComments text))"

inductive reachable :: "(string \<times> string) list \<Rightarrow> string \<Rightarrow> string \<Rightarrow> bool"
  for importedDefinitions :: "(string \<times> string) list" and src :: string
where
  direct: "p \<in> set (directives src) \<Longrightarrow> reachable importedDefinitions src p"
| nested:
    "reachable importedDefinitions src q \<Longrightarrow>
     map_of importedDefinitions q = Some importContent \<Longrightarrow> importContent \<noteq> [] \<Longrightarrow>
     p \<in> set (directives importContent) \<Longrightarrow> reachable importedDefinitions src p"




section \<open>Well-formed strings\<close>


section \<open>Example schemas\<close>

text \<open>
  The entity lists that the grammar builds for the schema texts used below:
  \<open>struct a { bool b; }\<close>; \<open>enum E { A, B=10, C } struct s { E f = B; }\<close>;
  \<open>struct X { Y y; } struct Y { u32 z; }\<close>.
\<close>

definition struct_a :: "entity list list" where
  "struct_a = [[Struct ''a'' False [Field (typeOnly ''bool'') ''b'' NoArray None]]]"


definition scenario_F :: "entity list list" where
  "scenario_F =
     [[Struct ''X'' False [Field (ComplexType [''Y'']) ''y'' NoArray None],
       Struct ''Y'' False [Field (typeOnly ''uint32'') ''z'' NoArray None]]]"

definition struct_X :: msgdef where
  "struct_X =
     \<lparr>name = ''X'', namespaces = [],
      definitions = [(typeOnly ''Y'')\<lparr>fname := ''y'', isComplex := True\<rparr>],
      hashValue = 5924728727019124922, isEnum = False, isEnumClass = False,
      isNakedStruct = False\<rparr>"

definition struct_Y :: msgdef where
  "struct_Y =
     \<lparr>name = ''Y'', namespaces = [],
      definitions = [(typeOnly ''uint32'')\<lparr>fname := ''z''\<rparr>],
      hashValue = 3993632972737304964, isEnum = False, isEnumClass = False,
      isNakedStruct = False\<rparr>"

text \<open>
  The line of one field in the hashed text, given its element: a complex field ends in
  \<open>;\<close> and a newline, a primitive field in \<open>;\<close>, a space and a newline.
\<close>

definition fieldLine :: "field \<Rightarrow> string \<Rightarrow> string" where
  "fieldLine f element =
     arrayPrefix f @ element @ '' '' @ fname f @
       (if isComplex f then [CHR '';'', CHR 0x0A] else [CHR '';'', CHR '' '', CHR 0x0A])"

fun endsWith :: "string \<Rightarrow> string \<Rightarrow> bool" where
  "endsWith s suffix = startsWith (rev s) (rev suffix)"

text \<open>
  The schema of the test "should handle multiple namespaces" of parse.test.ts:
  \<open>namespace ns1 { enum a { b } struct c { a d; } }
  namespace ns2 { enum e { f } struct g { e h; ns2::e i; ns1::a j; ns1::c k; } }\<close>.
\<close>

definition multiple_namespaces :: "entity list list" where
  "multiple_namespaces =
     [[Namespace ''ns1''
         [Enum ''a'' False [EnumValue ''b'' None],
          Struct ''c'' False [Field (ComplexType [''a'']) ''d'' NoArray None]],
       Namespace ''ns2''
         [Enum ''e'' False [EnumValue ''f'' None],
          Struct ''g'' False
            [Field (ComplexType [''e'']) ''h'' NoArray None,
             Field (ComplexType [''ns2'', ''e'']) ''i'' NoArray None,
             Field (ComplexType [''ns1'', ''a'']) ''j'' NoArray None,
             Field (ComplexType [''ns1'', ''c'']) ''k'' NoArray None]]]]"

text \<open>How a field's element in the hashed text is obtained.\<close>

definition lineElement :: "nat \<Rightarrow> schemaMap \<Rightarrow> string list \<Rightarrow> field \<Rightarrow> string \<Rightarrow> bool" where
  "lineElement n m ns f el =
     (if isComplex f
      then (case computeHashValue n m ns (ftype f) of
              Inl e \<Rightarrow> False
            | Inr h \<Rightarrow> el = decimal h)
      else elementTypeToStrC (ftype f) = Inr el)"

section \<open>Example messages\<close>

text \<open>
  The definition that \<open>parse\<close> returns for \<open>struct a { string b; bool c; }\<close> (the
  schema of serde.test.ts), and the two maps that \<open>createSchemaMaps\<close> builds from it.
\<close>

definition scenario_A :: "entity list list" where
  "scenario_A =
     [[Struct ''a'' False
         [Field (typeOnly ''string'') ''b'' NoArray None,
          Field (typeOnly ''bool'') ''c'' NoArray None]]]"

definition struct_a_bc :: msgdef where
  "struct_a_bc =
     \<lparr>name = ''a'', namespaces = [],
      definitions = [(typeOnly ''string'')\<lparr>fname := ''b''\<rparr>, (typeOnly ''bool'')\<lparr>fname := ''c''\<rparr>],
      hashValue = 5733541829152792006, isEnum = False, isEnumClass = False,
      isNakedStruct = False\<rparr>"

definition hashMapOf :: "msgdef list \<Rightarrow> (nat \<rightharpoonup> msgdef)" where
  "hashMapOf rs = foldl (\<lambda>m r. if \<not> isEnum r then m(hashValue r \<mapsto> r) else m) Map.empty rs"

text \<open>The message \<open>{b: "\<acute>e", c: true}\<close>: the string is the one code unit U+00E9.\<close>

definition msg_e_acute :: CbufMessageData where
  "msg_e_acute =
     \<lparr>typeName = ''a'', timestamp = NF64 0,
      message = VObject [(''b'', VString [0xE9]), (''c'', VBool True)]\<rparr>"


text \<open>
  \<open>struct f { string s[1]; }\<close> as \<open>parse\<close> returns it, and the message
  \<open>{s: ["a", "bc"]}\<close>.
\<close>

definition fixed_strings :: "entity list list" where
  "fixed_strings = [[Struct ''f'' False [Field (typeOnly ''string'') ''s'' (ArrayFixed 1) None]]]"

definition struct_f :: msgdef where
  "struct_f =
     \<lparr>name = ''f'', namespaces = [],
      definitions = [(typeOnly ''string'')\<lparr>fname := ''s'', isArray := True, arrayLength := Some 1\<rparr>],
      hashValue = 18111185481808798961, isEnum = False, isEnumClass = False,
      isNakedStruct = False\<rparr>"

definition msg_two_strings :: CbufMessageData where
  "msg_two_strings =
     \<lparr>typeName = ''f'', timestamp = NF64 0,
      message = VObject [(''s'', VArray [VString (js ''a''), VString (js ''bc'')])]\<rparr>"

text \<open>
  \<open>struct a { bool b; } struct c { a g[2]; }\<close> as \<open>parse\<close> returns it, and the
  message \<open>{g: [{b: true}, {b: false}]}\<close>.
\<close>

definition struct_array :: "entity list list" where
  "struct_array =
     [[Struct ''a'' False [Field (typeOnly ''bool'') ''b'' NoArray None],
       Struct ''c'' False [Field (ComplexType [''a'']) ''g'' (ArrayFixed 2) None]]]"

definition struct_a_b :: msgdef where
  "struct_a_b =
     \<lparr>name = ''a'', namespaces = [],
      definitions = [(typeOnly ''bool'')\<lparr>fname := ''b''\<rparr>],
      hashValue = 3808120302725858088, isEnum = False, isEnumClass = False,
      isNakedStruct = False\<rparr>"

definition struct_c_g :: msgdef where
  "struct_c_g =
     \<lparr>name = ''c'', namespaces = [],
      definitions =
        [(typeOnly ''a'')\<lparr>fname := ''g'', isComplex := True, isArray := True,
           arrayLength := Some 2\<rparr>],
      hashValue = 1109212393687880363, isEnum = False, isEnumClass = False,
      isNakedStruct = False\<rparr>"

definition msg_two_structs :: CbufMessageData where
  "msg_two_structs =
     \<lparr>typeName = ''c'', timestamp = NF64 0,
      message =
        VObject [(''g'', VArray [VObject [(''b'', VBool True)], VObject [(''b'', VBool False)]])]\<rparr>"

text \<open>
  \<open>namespace ns1 { struct a { double b; short_string c; } }\<close>, the schema of the test
  "should handle short_string" of parse.test.ts.
\<close>

definition short_string_schema :: "entity list list" where
  "short_string_schema =
     [[Namespace ''ns1''
         [Struct ''a'' False
            [Field (typeOnly ''float64'') ''b'' NoArray None,
             Field (typeOnly ''short_string'') ''c'' NoArray None]]]]"

definition struct_ns1_a :: msgdef where
  "struct_ns1_a =
     \<lparr>name = ''ns1::a'', namespaces = [''ns1''],
      definitions =
        [(typeOnly ''float64'')\<lparr>fname := ''b''\<rparr>, (typeOnly ''short_string'')\<lparr>fname := ''c''\<rparr>],
      hashValue = 16459951902678586258, isEnum = False, isEnumClass = False,
      isNakedStruct = False\<rparr>"


text \<open>
  The buffer that \<open>serializeMessage\<close> returns for \<open>msg_with_null\<close>, as a view, and the
  field \<open>b\<close> of the struct.
\<close>

definition view_with_null :: view where
  "view_with_null =
     \<lparr>buffer = [0x54, 0x4E, 0x44, 0x56, 32, 0, 0, 0,
                0xC6, 0xDD, 0x7E, 0x7F, 0xEA, 0xA1, 0x91, 0x4F,
                0, 0, 0, 0, 0, 0, 0, 0,
                3, 0, 0, 0, 0x61, 0, 0x62, 1],
      byteOffset = 0, byteLength = 32\<rparr>"











subsection \<open>Texts for the preprocessor\<close>






section \<open>Properties of the hash\<close>

lemma hash_mask_eq: "hash_mask = Bit_Operations.mask 64"
  by (simp add: hash_mask_def mask_eq_exp_minus_1)

lemma and_hash_mask: "x AND hash_mask = x mod 2 ^ 64"
  unfolding hash_mask_eq by (simp only: take_bit_eq_mask [symmetric] take_bit_eq_mod)

lemma hashStep_djb2: "hashStep h c = djb2_step h c"
  by (simp add: hashStep_def djb2_step_def and_hash_mask mod_add_left_eq)

lemma foldl_hashStep_djb2: "foldl hashStep h s = foldl djb2_step h s"
  by (induction s arbitrary: h) (simp_all add: hashStep_djb2)

lemmas parse_evals =
  parse_def registerName_def Field_def EnumValue_def ComplexType_def rewriteField_def
  checkDefault_def defaultValueTypeCheck_def schemaMapOf_def computeHashValue_def
  lookupMsgdef_def lookupEnum_def typeOnly_def elementTypeToStrC_def arrayPrefix_def js_def
  hashString_def hashStep_djb2 djb2_step_def Let_def decimal.simps digit_def

text \<open>
  C3. \<open>hashString\<close> is the recurrence \<open>hash := 5381\<close>,
  \<open>hash := ((hash << 5) + hash + code(c)) mod 2^64\<close> over the characters of its
  argument, \<open>computeHashValue\<close> applies it to the canonical text, and parsing
  \<open>struct a { bool b; }\<close> in the global namespace yields one entity whose hashValue is
  3808120302725858088.
\<close>

theorem struct_hash_is_djb2:
  "hashString str = djb2 str
   \<and> computeHashValue fuel nameToSchema ns tn =
       (case hashBuf fuel nameToSchema ns tn of
          Inl e \<Rightarrow> Inl e
        | Inr text \<Rightarrow> Inr (djb2 text))
   \<and> parse struct_a =
       Inr [\<lparr>name = ''a'', namespaces = [],
             definitions = [(typeOnly ''bool'')\<lparr>fname := ''b''\<rparr>],
             hashValue = 3808120302725858088, isEnum = False, isEnumClass = False,
             isNakedStruct = False\<rparr>]"
proof (intro conjI)
  show djb2: "hashString s = djb2 s" for s
    by (simp add: hashString_def djb2_def foldl_hashStep_djb2)
  show "computeHashValue fuel nameToSchema ns tn =
       (case hashBuf fuel nameToSchema ns tn of
          Inl e \<Rightarrow> Inl e
        | Inr text \<Rightarrow> Inr (djb2 text))"
    by (simp add: computeHashValue_def djb2 split: sum.splits)
  show "parse struct_a =
       Inr [\<lparr>name = ''a'', namespaces = [],
             definitions = [(typeOnly ''bool'')\<lparr>fname := ''b''\<rparr>],
             hashValue = 3808120302725858088, isEnum = False, isEnumClass = False,
             isNakedStruct = False\<rparr>]"
    by (simp add: struct_a_def parse_evals)
qed

section \<open>Properties of the semantic analysis\<close>










section \<open>The canonical text\<close>

lemma hashLines_lines:
  "hashLines n m ns fs = Inr t \<Longrightarrow>
   \<exists>els. list_all2 (lineElement n m ns) fs els \<and> t = concat (map2 fieldLine fs els)"
proof (induction fs arbitrary: t)
  case Nil
  then show ?case by simp
next
  case (Cons f fs)
  from Cons.prems obtain l ls where
    l: "(if isComplex f
         then (case hashBuf n m ns (ftype f) of
                 Inl e \<Rightarrow> Inl e
               | Inr s \<Rightarrow>
                   Inr (decimal (hashString s) @ '' '' @ fname f @ [CHR '';'', CHR 0x0A]))
         else (case elementTypeToStrC (ftype f) of
                 Inl e \<Rightarrow> Inl e
               | Inr c \<Rightarrow> Inr (c @ '' '' @ fname f @ [CHR '';'', CHR '' '', CHR 0x0A]))) = Inr l"
    and ls: "hashLines n m ns fs = Inr ls"
    and t: "t = arrayPrefix f @ l @ ls"
    by (auto split: sum.splits)
  from Cons.IH [OF ls] obtain els where
    els: "list_all2 (lineElement n m ns) fs els" "ls = concat (map2 fieldLine fs els)"
    by blast
  from l obtain el where el: "lineElement n m ns f el" "arrayPrefix f @ l = fieldLine f el"
    by (auto simp: lineElement_def fieldLine_def computeHashValue_def
             split: if_splits sum.splits)
  from els el t have "list_all2 (lineElement n m ns) (f # fs) (el # els)
      \<and> t = concat (map2 fieldLine (f # fs) (el # els))"
    by simp
  then show ?case by blast
qed

lemma parse_scenario_F: "parse scenario_F = Inr [struct_X, struct_Y]"
  by (simp add: scenario_F_def struct_X_def struct_Y_def parse_evals)

lemma hashBuf_scenario_F:
  "hashBuf (Suc (Suc 0)) (schemaMapOf [struct_X, struct_Y]) [] ''X'' =
     Inr ''struct X \<newline>3993632972737304964 y;\<newline>''"
  by (simp add: struct_X_def struct_Y_def parse_evals)

text \<open>
  The repository's own test of a struct with a complex field (\<open>ns1::c k\<close> in \<open>ns2::g\<close>)
  expects the hash that the text without the space gives.
\<close>

lemma parse_multiple_namespaces_hashes:
  "map_sum id (map (\<lambda>r. (name r, hashValue r))) (parse multiple_namespaces) =
     Inr [(''ns1::a'', 0), (''ns1::c'', 2299624816536008030), (''ns2::e'', 0),
          (''ns2::g'', 3084739611297464190)]"
  by (simp add: multiple_namespaces_def parse_evals)

text \<open>
  C7, as the code has it. The text hashed for a struct is \<open>struct\<close>, the type name, a
  space and a newline, then one line per field: an array prefix if the field is an
  array, the element, a space, the field name, and then \<open>;\<close>, a space and a newline
  for a primitive field but \<open>;\<close> and a newline, with no space, for a complex field.
  The element of a complex field is the decimal string of the nested struct's hash,
  computed recursively; that of a primitive field is its C spelling.
\<close>

theorem canonical_text_lines:
  "hashBuf (Suc n) nameToSchema ns tn = Inr text \<Longrightarrow>
   \<exists>d els. lookupMsgdef nameToSchema ns tn = Inr d
     \<and> list_all2 (lineElement n nameToSchema (namespaces d)) (definitions d) els
     \<and> text = ''struct '' @ tn @ '' \<newline>'' @ concat (map2 fieldLine (definitions d) els)"
  by (auto split: sum.splits dest: hashLines_lines)

theorem canonical_text_lines_witness:
  "hashBuf (Suc 1) (schemaMapOf [struct_X, struct_Y]) [] ''X'' =
     Inr ''struct X \<newline>3993632972737304964 y;\<newline>''
   \<and> (\<exists>d els. lookupMsgdef (schemaMapOf [struct_X, struct_Y]) [] ''X'' = Inr d
        \<and> list_all2 (lineElement 1 (schemaMapOf [struct_X, struct_Y]) (namespaces d))
             (definitions d) els
        \<and> ''struct X \<newline>3993632972737304964 y;\<newline>'' =
            ''struct '' @ ''X'' @ '' \<newline>'' @ concat (map2 fieldLine (definitions d) els))"
proof -
  have h: "hashBuf (Suc 1) (schemaMapOf [struct_X, struct_Y]) [] ''X'' =
     Inr ''struct X \<newline>3993632972737304964 y;\<newline>''"
    using hashBuf_scenario_F by simp
  from canonical_text_lines [OF h] h show ?thesis by blast
qed

text \<open>
  C7 as stated fails: in scenario F the line of the complex field \<open>y\<close> of \<open>X\<close> ends
  with \<open>;\<close> and a newline, with no space before the newline.
\<close>

theorem complex_field_line_counterexample:
  "parse scenario_F = Inr [struct_X, struct_Y]
   \<and> hashBuf (Suc (Suc 0)) (schemaMapOf [struct_X, struct_Y]) [] ''X'' =
       Inr ''struct X \<newline>3993632972737304964 y;\<newline>''
   \<and> \<not> endsWith ''struct X \<newline>3993632972737304964 y;\<newline>'' ''; \<newline>''"
  using parse_scenario_F hashBuf_scenario_F by simp

section \<open>The codec on example messages\<close>

lemma le_bytes_numeral:
  "le_bytes (numeral k) v = of_nat (v mod 256) # le_bytes (pred_numeral k) (v div 256)"
  by (simp only: numeral_eq_Suc le_bytes.simps)

lemma replicate_numeral: "replicate (numeral k) x = x # replicate (pred_numeral k) x"
  by (simp only: numeral_eq_Suc replicate.simps)

lemma serializeElements_numeral:
  "serializeElements n m ns f vs (numeral c) buf offset innerOffset =
     (case serializeNonArrayField n m ns f (case vs of [] \<Rightarrow> VUndefined | v # rest \<Rightarrow> v)
             buf (offset + innerOffset) of
        Inl e \<Rightarrow> Inl e
      | Inr (k, b) \<Rightarrow>
          serializeElements n m ns f (tl vs) (pred_numeral c) b offset (innerOffset + k))"
  by (simp only: numeral_eq_Suc serializeElements.simps)

lemmas serde_evals =
  serializeMessage_def serializeMessageEnd_def serializedMessageSize_def findMsgdef_def
  METADATA_DEFINITION_def HEADER_SIZE_def CBUF_MAGIC_def fieldValue_def fixedWidth_def
  objectOrEmpty_def writeHeader_def setUint_def setBigUint64_def setFloat64_def
  float64_bits_def writeBytes_def truncNumber_def serializeBasic_def serializeString_def
  schemaMapOf_def hashMapOf_def typeOnly_def js_def utf8_of_codepoint_def isHighSurrogate_def
  isLowSurrogate_def lookupMsgdef_def lookupEnum_def le_bytes_numeral serializeElements_numeral
  replicate_numeral Let_def

lemma float64_bits_zero: "float64_bits (NInt 0) = 0"
  by (simp add: float64_bits_def ieee_encode_def bitlen.simps)

lemma parse_scenario_A: "parse scenario_A = Inr [struct_a_bc]"
  by (simp add: scenario_A_def struct_a_bc_def parse_evals)

lemma parse_fixed_strings: "parse fixed_strings = Inr [struct_f]"
  by (simp add: fixed_strings_def struct_f_def parse_evals)

lemma parse_struct_array: "parse struct_array = Inr [struct_a_b, struct_c_g]"
  by (simp add: struct_array_def struct_a_b_def struct_c_g_def parse_evals)

lemma parse_short_string_schema: "parse short_string_schema = Inr [struct_ns1_a]"
  by (simp add: short_string_schema_def struct_ns1_a_def parse_evals)

lemma serialize_e_acute:
  "serializeMessage (Suc n) (schemaMapOf [struct_a_bc]) msg_e_acute =
     Inr [0x54, 0x4E, 0x44, 0x56, 30, 0, 0, 0,
          0xC6, 0xDD, 0x7E, 0x7F, 0xEA, 0xA1, 0x91, 0x4F,
          0, 0, 0, 0, 0, 0, 0, 0,
          1, 0, 0, 0, 0xC3, 1]"
  by (simp add: serde_evals struct_a_bc_def msg_e_acute_def)

text \<open>
  C5 fails on the code. For the message \<open>{b: "\<acute>e", c: true}\<close> of
  \<open>struct a { string b; bool c; }\<close> the UTF-8 encoding of the string is the two bytes
  C3 A9, but \<open>serializeMessage\<close> writes the length 1, the number of UTF-16 code units,
  and then only the byte C3.
\<close>

theorem unbounded_string_not_utf8_length:
  "parse scenario_A = Inr [struct_a_bc]
   \<and> textEncode [0xE9] = [0xC3, 0xA9]
   \<and> serializeMessage (Suc n) (schemaMapOf [struct_a_bc]) msg_e_acute =
       Inr [0x54, 0x4E, 0x44, 0x56, 30, 0, 0, 0,
            0xC6, 0xDD, 0x7E, 0x7F, 0xEA, 0xA1, 0x91, 0x4F,
            0, 0, 0, 0, 0, 0, 0, 0,
            1, 0, 0, 0, 0xC3, 1]"
  using parse_scenario_A serialize_e_acute
  by (simp add: utf8_of_codepoint_def isHighSurrogate_def isLowSurrogate_def)

text \<open>
  C1 fails on the code. For \<open>struct f { string s[1]; }\<close> and the message
  \<open>{s: ["a", "bc"]}\<close>, \<open>serializedMessageSize\<close> counts both strings and returns 31;
  \<open>serializeMessage\<close> returns a buffer of 31 bytes but writes one element and stops at
  offset 29. For \<open>struct a { bool b; } struct c { a g[2]; }\<close> and the message
  \<open>{g: [{b: true}, {b: false}]}\<close>, \<open>serializedMessageSize\<close> leaves out the preambles
  of the elements and returns 26, and \<open>serializeMessage\<close> runs out of the buffer.
\<close>

theorem size_differs_from_bytes_written:
  "parse fixed_strings = Inr [struct_f]
   \<and> serializedMessageSize (Suc n) (schemaMapOf [struct_f]) msg_two_strings = Inr 31
   \<and> serializeMessage (Suc n) (schemaMapOf [struct_f]) msg_two_strings =
       Inr [0x54, 0x4E, 0x44, 0x56, 31, 0, 0, 0,
            0xF1, 0xE4, 0x6C, 0x10, 0x3D, 0xDB, 0x57, 0xFB,
            0, 0, 0, 0, 0, 0, 0, 0,
            1, 0, 0, 0, 0x61, 0, 0]
   \<and> serializeMessageEnd (Suc n) (schemaMapOf [struct_f]) msg_two_strings = Inr 29
   \<and> parse struct_array = Inr [struct_a_b, struct_c_g]
   \<and> serializedMessageSize (Suc (Suc n)) (schemaMapOf [struct_a_b, struct_c_g]) msg_two_structs
       = Inr 26
   \<and> serializeMessage (Suc (Suc n)) (schemaMapOf [struct_a_b, struct_c_g]) msg_two_structs
       = Inl RangeError"
proof (intro conjI)
  show "parse fixed_strings = Inr [struct_f]" by (rule parse_fixed_strings)
  show "serializedMessageSize (Suc n) (schemaMapOf [struct_f]) msg_two_strings = Inr 31"
    by (simp add: serde_evals struct_f_def msg_two_strings_def)
  show "serializeMessage (Suc n) (schemaMapOf [struct_f]) msg_two_strings =
       Inr [0x54, 0x4E, 0x44, 0x56, 31, 0, 0, 0,
            0xF1, 0xE4, 0x6C, 0x10, 0x3D, 0xDB, 0x57, 0xFB,
            0, 0, 0, 0, 0, 0, 0, 0,
            1, 0, 0, 0, 0x61, 0, 0]"
    by (simp add: serde_evals struct_f_def msg_two_strings_def)
  show "serializeMessageEnd (Suc n) (schemaMapOf [struct_f]) msg_two_strings = Inr 29"
    by (simp add: serde_evals struct_f_def msg_two_strings_def)
  show "parse struct_array = Inr [struct_a_b, struct_c_g]" by (rule parse_struct_array)
  show "serializedMessageSize (Suc (Suc n)) (schemaMapOf [struct_a_b, struct_c_g])
          msg_two_structs = Inr 26"
    by (simp add: serde_evals struct_a_b_def struct_c_g_def msg_two_structs_def)
  show "serializeMessage (Suc (Suc n)) (schemaMapOf [struct_a_b, struct_c_g]) msg_two_structs
          = Inl RangeError"
    by (simp add: serde_evals struct_a_b_def struct_c_g_def msg_two_structs_def)
qed

text \<open>
  C6 fails on the code. The grammar gives a field written \<open>short_string\<close> the type
  \<open>short_string\<close> and no upperBound, \<open>parse\<close> keeps both, and the codec, which knows
  the type \<open>string\<close> with an upperBound, rejects the field.
\<close>

theorem short_string_not_rewritten:
  "BasicType ''short_string'' = Some (typeOnly ''short_string'')
   \<and> parse short_string_schema = Inr [struct_ns1_a]
   \<and> map (\<lambda>f. (fname f, ftype f, upperBound f)) (definitions struct_ns1_a) =
       [(''b'', ''float64'', None), (''c'', ''short_string'', None)]
   \<and> serializedMessageSize (Suc n) (schemaMapOf [struct_ns1_a])
         \<lparr>typeName = ''ns1::a'', timestamp = NF64 0, message = VObject []\<rparr>
       = Inl (UnsupportedType ''short_string'')
   \<and> serializeMessage (Suc n) (schemaMapOf [struct_ns1_a])
         \<lparr>typeName = ''ns1::a'', timestamp = NF64 0, message = VObject []\<rparr>
       = Inl (UnsupportedType ''short_string'')"
  using parse_short_string_schema
  by (simp add: BasicType_def serde_evals struct_ns1_a_def)

section \<open>The size word\<close>

lemma and_exp_eq_exp_iff:
  fixes w :: "'a::len word"
  assumes "n < LENGTH('a)"
  shows "(w AND 2 ^ n = 2 ^ n) = bit w n"
proof
  assume a: "w AND 2 ^ n = 2 ^ n"
  have "bit (w AND 2 ^ n) n" unfolding a using assms by (simp add: bit_exp_iff)
  then show "bit w n" by (simp add: bit_and_iff)
next
  assume "bit w n"
  then show "w AND 2 ^ n = 2 ^ n"
    by (intro bit_eqI) (auto simp: bit_and_iff bit_exp_iff)
qed

lemma hasVariant_bit: "hasVariant w = bit w 27"
  using and_exp_eq_exp_iff [of 27 w] by (simp add: hasVariant_def)

lemma and_low27: "(w :: 32 word) AND 0x07ffffff = take_bit 27 w"
proof -
  have "(0x07ffffff :: 32 word) = mask 27" by (simp add: mask_eq_exp_minus_1)
  then show ?thesis by (simp add: take_bit_eq_mask)
qed

lemma and_low31: "(w :: 32 word) AND 0x7fffffff = take_bit 31 w"
proof -
  have "(0x7fffffff :: 32 word) = mask 31" by (simp add: mask_eq_exp_minus_1)
  then show ?thesis by (simp add: take_bit_eq_mask)
qed

lemma sizeOf_bits:
  "sizeOf w = (if bit w 27 then unat (take_bit 27 w) else unat (take_bit 31 w))"
  by (simp add: sizeOf_def hasVariant_bit and_low27 and_low31)

lemma shift_signed_low4:
  "signed_drop_bit 27 (w :: 32 word) AND 0x0f = drop_bit 27 w AND 0x0f"
proof -
  have m: "(0x0f :: 32 word) = mask 4" by (simp add: mask_eq_exp_minus_1)
  show ?thesis
    unfolding m
    by (intro bit_eqI) (auto simp: bit_and_iff bit_mask_iff bit_signed_drop_bit_iff bit_drop_bit_eq)
qed

lemma variantOf_bits:
  "variantOf w = (if bit w 27 then unat (drop_bit 27 w AND 0x0f) else 0)"
  by (simp add: variantOf_def hasVariant_bit shift_signed_low4)

lemma sizeOf_arith: "sizeOf w = (if bit w 27 then unat w mod 2 ^ 27 else unat w mod 2 ^ 31)"
  by (simp add: sizeOf_bits unsigned_take_bit_eq take_bit_eq_mod unat_mod)

lemma variantOf_arith: "variantOf w = (if bit w 27 then unat w div 2 ^ 27 mod 16 else 0)"
proof -
  have m: "(0x0f :: 32 word) = mask 4" by (simp add: mask_eq_exp_minus_1)
  have "unat (drop_bit 27 w AND 0x0f) = unat w div 2 ^ 27 mod 16"
    unfolding m
    by (simp add: unsigned_take_bit_eq take_bit_eq_mod unsigned_drop_bit_eq drop_bit_eq_div
          unat_mod unat_div flip: take_bit_eq_mask)
  then show ?thesis by (simp add: variantOf_bits)
qed

lemma bit27_arith: "bit (w :: 32 word) 27 = odd (unat w div 2 ^ 27)"
proof -
  have "bit w 27 = bit (unat w) 27" by (simp add: bit_unsigned_iff)
  then show ?thesis by (simp only: bit_iff_odd)
qed



section \<open>Decoded strings\<close>









lemmas read_evals =
  openView_def readPreamble_def getUint_def getBytes_def readBasicType_def
  readBasicValue_def readString_def readBytes_def textDecode_def stripBOM_def utf8_lead_def
  utf8_initial_def utf16_of_codepoint_def beforeNull_def CBUF_MAGIC_def
  METADATA_DEFINITION_def hashMapOf_def schemaMapOf_def typeOnly_def lookupMsgdef_def
  lookupEnum_def sizeOf_arith variantOf_arith bit27_arith Let_def

lemma deserialize_e_acute:
  "deserializeMessage (Suc n) (schemaMapOf [struct_a_bc]) (hashMapOf [struct_a_bc])
     \<lparr>buffer = [0x54, 0x4E, 0x44, 0x56, 30, 0, 0, 0,
                0xC6, 0xDD, 0x7E, 0x7F, 0xEA, 0xA1, 0x91, 0x4F,
                0, 0, 0, 0, 0, 0, 0, 0,
                1, 0, 0, 0, 0xC3, 1],
      byteOffset = 0, byteLength = 30\<rparr> 0 =
     Inr \<lparr>msg_typeName = ''a'', msg_size = 30, msg_variant = 0,
          msg_hashValue = 5733541829152792006, msg_timestamp = NF64 0,
          msg_message = VObject [(''b'', VString [0xFFFD]), (''c'', VBool True)]\<rparr>"
  by (simp add: read_evals struct_a_bc_def)

text \<open>
  C2 fails on the code. The message \<open>{b: "\<acute>e", c: true}\<close> of
  \<open>struct a { string b; bool c; }\<close> is serialized with the first byte of the
  string's encoding only, and deserializing the buffer gives \<open>b\<close> the text U+FFFD.
\<close>

theorem roundtrip_changes_string:
  "message msg_e_acute = VObject [(''b'', VString [0xE9]), (''c'', VBool True)]
   \<and> serializeMessage (Suc n) (schemaMapOf [struct_a_bc]) msg_e_acute =
       Inr [0x54, 0x4E, 0x44, 0x56, 30, 0, 0, 0,
            0xC6, 0xDD, 0x7E, 0x7F, 0xEA, 0xA1, 0x91, 0x4F,
            0, 0, 0, 0, 0, 0, 0, 0,
            1, 0, 0, 0, 0xC3, 1]
   \<and> deserializeMessage (Suc k) (schemaMapOf [struct_a_bc]) (hashMapOf [struct_a_bc])
         \<lparr>buffer = [0x54, 0x4E, 0x44, 0x56, 30, 0, 0, 0,
                    0xC6, 0xDD, 0x7E, 0x7F, 0xEA, 0xA1, 0x91, 0x4F,
                    0, 0, 0, 0, 0, 0, 0, 0,
                    1, 0, 0, 0, 0xC3, 1],
          byteOffset = 0, byteLength = 30\<rparr> 0 =
       Inr \<lparr>msg_typeName = ''a'', msg_size = 30, msg_variant = 0,
            msg_hashValue = 5733541829152792006, msg_timestamp = NF64 0,
            msg_message = VObject [(''b'', VString [0xFFFD]), (''c'', VBool True)]\<rparr>"
  using serialize_e_acute [of n] deserialize_e_acute [of k] by (simp add: msg_e_acute_def)




section \<open>Strings written and read back\<close>

subsection \<open>Arithmetic of the UTF-8 bytes\<close>



















subsection \<open>One code point\<close>






subsection \<open>Well-formed strings\<close>
















subsection \<open>The field in the buffer\<close>













lemma deserialize_with_null:
  "deserializeMessage (Suc n) (schemaMapOf [struct_a_bc]) (hashMapOf [struct_a_bc])
     view_with_null 0 =
     Inr \<lparr>msg_typeName = ''a'', msg_size = 32, msg_variant = 0,
          msg_hashValue = 5733541829152792006, msg_timestamp = NF64 0,
          msg_message = VObject [(''b'', VString [0x61]), (''c'', VBool True)]\<rparr>"
  by (simp add: read_evals struct_a_bc_def view_with_null_def)








section \<open>The preprocessor: which imports fail\<close>
















subsection \<open>Evaluation on the example texts\<close>









end
